theory Spec2Isabelle
  imports Main "HOL-Library.Word"
begin

section \<open>Value objects, entities and checkout of the e-commerce backend\<close>

text \<open>
  A shallow embedding of the Go packages \<^verbatim>\<open>domain/value\<close> (Money, Quantity),
  \<^verbatim>\<open>domain/entity\<close> (Product, Basket, Order) and of
  \<^verbatim>\<open>OrderService.CreateOrder\<close> in \<^verbatim>\<open>application/service\<close>.

  Conventions.
  \<^item> Go's \<^verbatim>\<open>int64\<close> is a 64-bit word read as two's complement (\<open>sint\<close>); \<open>+\<close>,
    \<open>-\<close> and \<open>*\<close> wrap around silently, as they do in Go. Go's \<^verbatim>\<open>int\<close> is taken at
    its width on 64-bit platforms, so \<^verbatim>\<open>int64(quantity)\<close> is the identity.
  \<^item> A function returning \<^verbatim>\<open>(*T, error)\<close> returns \<open>error + T\<close>; a method with a
    pointer receiver that mutates it and returns \<^verbatim>\<open>error\<close> takes the receiver and
    returns \<open>error option \<times> T\<close>: the error (if any) and the receiver afterwards.
  \<^item> \<^verbatim>\<open>errors.New("...")\<close> becomes one constructor of \<open>error\<close> per message.
  \<^item> \<^verbatim>\<open>time.Now()\<close> and \<^verbatim>\<open>uuid.New().String()\<close> are inputs of the operation that
    reads them; an operation that reads the clock several times is given one instant for
    all of its readings.
  \<^item> A pointer parameter is an \<open>option\<close> exactly where the source tests it against
    \<^verbatim>\<open>nil\<close>; everywhere else pointers are taken to be non-nil.
\<close>

type_synonym int64 = "64 word"
type_synonym go_int = "64 word"
type_synonym time = nat

datatype error =
    AmountNegative            \<comment> \<open>"amount cannot be negative"\<close>
  | CurrencyEmpty             \<comment> \<open>"currency cannot be empty"\<close>
  | CurrencyMismatch          \<comment> \<open>"cannot add money with different currencies"\<close>
  | QuantityNegative          \<comment> \<open>"quantity cannot be negative"\<close>
  | ResultNegative            \<comment> \<open>"resulting quantity cannot be negative"\<close>
  | ProductNameEmpty          \<comment> \<open>"product name cannot be empty"\<close>
  | ProductPriceNil           \<comment> \<open>"product price cannot be nil"\<close>
  | ProductStockNil           \<comment> \<open>"product stock cannot be nil"\<close>
  | InsufficientStock         \<comment> \<open>"insufficient stock"\<close>
  | ProductIDEmpty            \<comment> \<open>"product ID cannot be empty"\<close>
  | QuantityNotPositive       \<comment> \<open>"quantity must be greater than zero"\<close>
  | PriceNil                  \<comment> \<open>"price cannot be nil"\<close>
  | ItemNotFound              \<comment> \<open>"item not found in basket"\<close>
  | EmptyOrder                \<comment> \<open>"cannot create order with empty basket"\<close>
  | OnlyPending               \<comment> \<open>"only pending orders can be confirmed"\<close>
  | OnlyConfirmed             \<comment> \<open>"only confirmed orders can be shipped"\<close>
  | OnlyShipped               \<comment> \<open>"only shipped orders can be delivered"\<close>
  | AlreadyDelivered          \<comment> \<open>"delivered orders cannot be cancelled"\<close>
  | AlreadyCancelled          \<comment> \<open>"order is already cancelled"\<close>
  | BasketIDRequired          \<comment> \<open>"basket ID is required"\<close>
  | EmptyBasket               \<comment> \<open>"cannot create order from empty basket"\<close>
  | InsufficientStockFor string  \<comment> \<open>"insufficient stock for product: " + name\<close>
  | ProductNotFound           \<comment> \<open>"product not found"\<close>
  | BasketNotFound            \<comment> \<open>"basket not found"\<close>
  | RuntimePanic              \<comment> \<open>a run-time panic (nil dereference, index out of range)\<close>

subsection \<open>Money (domain/value/money.go)\<close>

record money =
  amount :: int64
  currency :: string

definition NewMoney :: "int64 \<Rightarrow> string \<Rightarrow> error + money" where
  "NewMoney a c =
     (if sint a < 0 then Inl AmountNegative
      else if c = [] then Inl CurrencyEmpty
      else Inr \<lparr>amount = a, currency = c\<rparr>)"

definition Money_Add :: "money \<Rightarrow> money \<Rightarrow> error + money" where
  "Money_Add m other =
     (if currency m \<noteq> currency other then Inl CurrencyMismatch
      else NewMoney (amount m + amount other) (currency m))"

definition Money_Multiply :: "money \<Rightarrow> go_int \<Rightarrow> error + money" where
  "Money_Multiply m quantity =
     (if sint quantity < 0 then Inl QuantityNegative
      else NewMoney (amount m * quantity) (currency m))"

definition Money_Equals :: "money \<Rightarrow> money \<Rightarrow> bool" where
  "Money_Equals m other = (amount m = amount other \<and> currency m = currency other)"

text \<open>The values \<^verbatim>\<open>NewMoney\<close> lets through: the invariant of every Money in the program.\<close>

definition valid_money :: "money \<Rightarrow> bool" where
  "valid_money m = (0 \<le> sint (amount m) \<and> currency m \<noteq> [])"

text \<open>
  The specification's reading of \<^verbatim>\<open>multiply(n)\<close>: start from the zero Money of the
  currency of \<open>m\<close> and add \<open>m\<close> to it \<open>n\<close> times, with the program's own \<^verbatim>\<open>Add\<close>.
\<close>

fun add_times :: "nat \<Rightarrow> money \<Rightarrow> error + money" where
  "add_times 0 m = NewMoney 0 (currency m)"
| "add_times (Suc k) m =
     (case add_times k m of Inl e \<Rightarrow> Inl e | Inr acc \<Rightarrow> Money_Add acc m)"

subsection \<open>Quantity (domain/value/quantity.go)\<close>

record quantity =
  qvalue :: go_int

definition NewQuantity :: "go_int \<Rightarrow> error + quantity" where
  "NewQuantity v = (if sint v < 0 then Inl QuantityNegative else Inr \<lparr>qvalue = v\<rparr>)"

definition Quantity_Add :: "quantity \<Rightarrow> quantity \<Rightarrow> error + quantity" where
  "Quantity_Add q other = NewQuantity (qvalue q + qvalue other)"

definition Quantity_Subtract :: "quantity \<Rightarrow> quantity \<Rightarrow> error + quantity" where
  "Quantity_Subtract q other =
     (let result = qvalue q - qvalue other
      in if sint result < 0 then Inl ResultNegative else NewQuantity result)"

definition IsZero :: "quantity \<Rightarrow> bool" where
  "IsZero q = (qvalue q = 0)"

definition valid_quantity :: "quantity \<Rightarrow> bool" where
  "valid_quantity q = (0 \<le> sint (qvalue q))"

subsection \<open>Product (domain/entity/product.go)\<close>

record product =
  p_id :: string
  p_name :: string
  p_description :: string
  p_price :: money
  p_stock :: quantity
  p_createdAt :: time
  p_updatedAt :: time

definition NewProduct ::
  "string \<Rightarrow> time \<Rightarrow> string \<Rightarrow> string \<Rightarrow> money option \<Rightarrow> quantity option \<Rightarrow> error + product" where
  "NewProduct uuid now name description price stock =
     (if name = [] then Inl ProductNameEmpty
      else case price of
        None \<Rightarrow> Inl ProductPriceNil
      | Some pr \<Rightarrow>
          (case stock of
             None \<Rightarrow> Inl ProductStockNil
           | Some st \<Rightarrow>
               Inr \<lparr>p_id = uuid, p_name = name, p_description = description, p_price = pr,
                    p_stock = st, p_createdAt = now, p_updatedAt = now\<rparr>))"

definition ReconstructProduct ::
  "string \<Rightarrow> string \<Rightarrow> string \<Rightarrow> money \<Rightarrow> quantity \<Rightarrow> time \<Rightarrow> time \<Rightarrow> product" where
  "ReconstructProduct ident name description price stock createdAt updatedAt =
     \<lparr>p_id = ident, p_name = name, p_description = description, p_price = price,
      p_stock = stock, p_createdAt = createdAt, p_updatedAt = updatedAt\<rparr>"

definition ReduceStock :: "time \<Rightarrow> quantity \<Rightarrow> product \<Rightarrow> error option \<times> product" where
  "ReduceStock now q p =
     (case Quantity_Subtract (p_stock p) q of
        Inl e \<Rightarrow> (Some InsufficientStock, p)
      | Inr newStock \<Rightarrow> (None, p\<lparr>p_stock := newStock, p_updatedAt := now\<rparr>))"

definition IsAvailable :: "product \<Rightarrow> bool" where
  "IsAvailable p = (\<not> IsZero (p_stock p))"

subsection \<open>Basket (domain/entity/basket.go)\<close>

record basket_item =
  bi_productID :: string
  bi_quantity :: quantity
  bi_price :: money

definition NewBasketItem :: "string \<Rightarrow> quantity option \<Rightarrow> money option \<Rightarrow> error + basket_item" where
  "NewBasketItem productID quantity price =
     (if productID = [] then Inl ProductIDEmpty
      else case quantity of
        None \<Rightarrow> Inl QuantityNotPositive
      | Some q \<Rightarrow>
          if IsZero q then Inl QuantityNotPositive
          else (case price of
                  None \<Rightarrow> Inl PriceNil
                | Some pr \<Rightarrow> Inr \<lparr>bi_productID = productID, bi_quantity = q, bi_price = pr\<rparr>))"

definition BasketItem_Subtotal :: "basket_item \<Rightarrow> error + money" where
  "BasketItem_Subtotal bi = Money_Multiply (bi_price bi) (qvalue (bi_quantity bi))"

record basket =
  b_id :: string
  b_items :: "basket_item list"
  b_createdAt :: time
  b_updatedAt :: time

definition NewBasket :: "string \<Rightarrow> time \<Rightarrow> basket" where
  "NewBasket uuid now = \<lparr>b_id = uuid, b_items = [], b_createdAt = now, b_updatedAt = now\<rparr>"

definition ReconstructBasket :: "string \<Rightarrow> basket_item list \<Rightarrow> time \<Rightarrow> time \<Rightarrow> basket" where
  "ReconstructBasket ident its createdAt updatedAt =
     \<lparr>b_id = ident, b_items = its, b_createdAt = createdAt, b_updatedAt = updatedAt\<rparr>"

text \<open>
  The search loop of \<^verbatim>\<open>AddItem\<close>: \<open>None\<close> when no item has the product ID (the loop
  falls through), otherwise the outcome at the first item that has it: an error, or the
  item list with that item replaced in place.
\<close>

fun AddItem_existing ::
  "string \<Rightarrow> quantity \<Rightarrow> money \<Rightarrow> basket_item list \<Rightarrow> (error + basket_item list) option" where
  "AddItem_existing productID q price [] = None"
| "AddItem_existing productID q price (item # rest) =
     (if bi_productID item = productID then
        (case Quantity_Add (bi_quantity item) q of
           Inl e \<Rightarrow> Some (Inl e)
         | Inr newQuantity \<Rightarrow>
             (case NewBasketItem productID (Some newQuantity) (Some price) of
                Inl e \<Rightarrow> Some (Inl e)
              | Inr newItem \<Rightarrow> Some (Inr (newItem # rest))))
      else (case AddItem_existing productID q price rest of
              None \<Rightarrow> None
            | Some (Inl e) \<Rightarrow> Some (Inl e)
            | Some (Inr rest') \<Rightarrow> Some (Inr (item # rest'))))"

definition AddItem :: "time \<Rightarrow> string \<Rightarrow> quantity \<Rightarrow> money \<Rightarrow> basket \<Rightarrow> error option \<times> basket" where
  "AddItem now productID q price b =
     (case AddItem_existing productID q price (b_items b) of
        Some (Inl e) \<Rightarrow> (Some e, b)
      | Some (Inr its) \<Rightarrow> (None, b\<lparr>b_items := its, b_updatedAt := now\<rparr>)
      | None \<Rightarrow>
          (case NewBasketItem productID (Some q) (Some price) of
             Inl e \<Rightarrow> (Some e, b)
           | Inr item \<Rightarrow> (None, b\<lparr>b_items := b_items b @ [item], b_updatedAt := now\<rparr>)))"

fun RemoveItem_first :: "string \<Rightarrow> basket_item list \<Rightarrow> basket_item list option" where
  "RemoveItem_first productID [] = None"
| "RemoveItem_first productID (item # rest) =
     (if bi_productID item = productID then Some rest
      else map_option ((#) item) (RemoveItem_first productID rest))"

definition RemoveItem :: "time \<Rightarrow> string \<Rightarrow> basket \<Rightarrow> error option \<times> basket" where
  "RemoveItem now productID b =
     (case RemoveItem_first productID (b_items b) of
        None \<Rightarrow> (Some ItemNotFound, b)
      | Some its \<Rightarrow> (None, b\<lparr>b_items := its, b_updatedAt := now\<rparr>))"

fun UpdateItemQuantity_existing ::
  "string \<Rightarrow> quantity \<Rightarrow> basket_item list \<Rightarrow> (error + basket_item list) option" where
  "UpdateItemQuantity_existing productID q [] = None"
| "UpdateItemQuantity_existing productID q (item # rest) =
     (if bi_productID item = productID then
        (case NewBasketItem productID (Some q) (Some (bi_price item)) of
           Inl e \<Rightarrow> Some (Inl e)
         | Inr newItem \<Rightarrow> Some (Inr (newItem # rest)))
      else (case UpdateItemQuantity_existing productID q rest of
              None \<Rightarrow> None
            | Some (Inl e) \<Rightarrow> Some (Inl e)
            | Some (Inr rest') \<Rightarrow> Some (Inr (item # rest'))))"

definition UpdateItemQuantity :: "time \<Rightarrow> string \<Rightarrow> quantity \<Rightarrow> basket \<Rightarrow> error option \<times> basket" where
  "UpdateItemQuantity now productID q b =
     (if IsZero q then RemoveItem now productID b
      else case UpdateItemQuantity_existing productID q (b_items b) of
        None \<Rightarrow> (Some ItemNotFound, b)
      | Some (Inl e) \<Rightarrow> (Some e, b)
      | Some (Inr its) \<Rightarrow> (None, b\<lparr>b_items := its, b_updatedAt := now\<rparr>))"

definition Clear :: "time \<Rightarrow> basket \<Rightarrow> basket" where
  "Clear now b = b\<lparr>b_items := [], b_updatedAt := now\<rparr>"

definition IsEmpty :: "basket \<Rightarrow> bool" where
  "IsEmpty b = (length (b_items b) = 0)"

text \<open>The summing loop of \<^verbatim>\<open>Total\<close>, from the running total.\<close>

fun Total_loop :: "money \<Rightarrow> basket_item list \<Rightarrow> error + money" where
  "Total_loop tot [] = Inr tot"
| "Total_loop tot (item # rest) =
     (case BasketItem_Subtotal item of
        Inl e \<Rightarrow> Inl e
      | Inr subtotal \<Rightarrow>
          (case Money_Add tot subtotal of
             Inl e \<Rightarrow> Inl e
           | Inr tot' \<Rightarrow> Total_loop tot' rest))"

definition Total :: "basket \<Rightarrow> error + money" where
  "Total b =
     (if IsEmpty b then NewMoney 0 ''USD''
      else case b_items b of
        [] \<Rightarrow> Inl RuntimePanic
      | first # _ \<Rightarrow>
          (case NewMoney 0 (currency (bi_price first)) of
             Inl e \<Rightarrow> Inl e
           | Inr tot \<Rightarrow> Total_loop tot (b_items b)))"

definition ItemCount :: "basket \<Rightarrow> go_int" where
  "ItemCount b = foldl (\<lambda>count item. count + qvalue (bi_quantity item)) 0 (b_items b)"

text \<open>
  The invariants of a basket that is built by \<^verbatim>\<open>NewBasket\<close> and changed only by its
  methods: no two items share a product ID, and every item has a non-empty product ID
  and a quantity greater than zero.
\<close>

definition positive_quantity :: "basket_item \<Rightarrow> bool" where
  "positive_quantity item = (0 < sint (qvalue (bi_quantity item)))"

definition good_item :: "basket_item \<Rightarrow> bool" where
  "good_item item = (bi_productID item \<noteq> [] \<and> positive_quantity item)"

definition basket_inv :: "basket \<Rightarrow> bool" where
  "basket_inv b = (distinct (map bi_productID (b_items b)) \<and> list_all good_item (b_items b))"

text \<open>
  The specification's total of a list of items: the exact integer sum of price times
  quantity, with no machine arithmetic.
\<close>

definition exact_total :: "basket_item list \<Rightarrow> int" where
  "exact_total its =
     sum_list (map (\<lambda>item. sint (amount (bi_price item)) * sint (qvalue (bi_quantity item))) its)"

subsection \<open>Order (domain/entity/order.go)\<close>

type_synonym OrderStatus = string

definition OrderStatusPending :: OrderStatus where "OrderStatusPending = ''PENDING''"
definition OrderStatusConfirmed :: OrderStatus where "OrderStatusConfirmed = ''CONFIRMED''"
definition OrderStatusShipped :: OrderStatus where "OrderStatusShipped = ''SHIPPED''"
definition OrderStatusDelivered :: OrderStatus where "OrderStatusDelivered = ''DELIVERED''"
definition OrderStatusCancelled :: OrderStatus where "OrderStatusCancelled = ''CANCELLED''"

record order_item =
  oi_productID :: string
  oi_quantity :: quantity
  oi_price :: money

definition NewOrderItem :: "string \<Rightarrow> quantity option \<Rightarrow> money option \<Rightarrow> error + order_item" where
  "NewOrderItem productID quantity price =
     (if productID = [] then Inl ProductIDEmpty
      else case quantity of
        None \<Rightarrow> Inl QuantityNotPositive
      | Some q \<Rightarrow>
          if IsZero q then Inl QuantityNotPositive
          else (case price of
                  None \<Rightarrow> Inl PriceNil
                | Some pr \<Rightarrow> Inr \<lparr>oi_productID = productID, oi_quantity = q, oi_price = pr\<rparr>))"

definition OrderItem_Subtotal :: "order_item \<Rightarrow> error + money" where
  "OrderItem_Subtotal oi = Money_Multiply (oi_price oi) (qvalue (oi_quantity oi))"

record order =
  o_id :: string
  o_items :: "order_item list"
  o_total :: money
  o_status :: OrderStatus
  o_createdAt :: time
  o_updatedAt :: time

text \<open>The two loops of \<^verbatim>\<open>NewOrder\<close>: the conversion of the items, then the total.\<close>

fun convert_items :: "basket_item list \<Rightarrow> error + order_item list" where
  "convert_items [] = Inr []"
| "convert_items (bi # rest) =
     (case NewOrderItem (bi_productID bi) (Some (bi_quantity bi)) (Some (bi_price bi)) of
        Inl e \<Rightarrow> Inl e
      | Inr orderItem \<Rightarrow>
          (case convert_items rest of
             Inl e \<Rightarrow> Inl e
           | Inr orderItems \<Rightarrow> Inr (orderItem # orderItems)))"

fun NewOrder_total :: "money \<Rightarrow> order_item list \<Rightarrow> error + money" where
  "NewOrder_total tot [] = Inr tot"
| "NewOrder_total tot (item # rest) =
     (case OrderItem_Subtotal item of
        Inl e \<Rightarrow> Inl e
      | Inr subtotal \<Rightarrow>
          (case Money_Add tot subtotal of
             Inl e \<Rightarrow> Inl e
           | Inr tot' \<Rightarrow> NewOrder_total tot' rest))"

definition NewOrder :: "string \<Rightarrow> time \<Rightarrow> basket_item list \<Rightarrow> error + order" where
  "NewOrder uuid now basketItems =
     (case basketItems of
        [] \<Rightarrow> Inl EmptyOrder
      | first # _ \<Rightarrow>
          (case convert_items basketItems of
             Inl e \<Rightarrow> Inl e
           | Inr orderItems \<Rightarrow>
               (case NewMoney 0 (currency (bi_price first)) of
                  Inl e \<Rightarrow> Inl e
                | Inr zero \<Rightarrow>
                    (case NewOrder_total zero orderItems of
                       Inl e \<Rightarrow> Inl e
                     | Inr tot \<Rightarrow>
                         Inr \<lparr>o_id = uuid, o_items = orderItems, o_total = tot,
                              o_status = OrderStatusPending,
                              o_createdAt = now, o_updatedAt = now\<rparr>))))"

definition Confirm :: "time \<Rightarrow> order \<Rightarrow> error option \<times> order" where
  "Confirm now ord =
     (if o_status ord \<noteq> OrderStatusPending then (Some OnlyPending, ord)
      else (None, ord\<lparr>o_status := OrderStatusConfirmed, o_updatedAt := now\<rparr>))"

definition Ship :: "time \<Rightarrow> order \<Rightarrow> error option \<times> order" where
  "Ship now ord =
     (if o_status ord \<noteq> OrderStatusConfirmed then (Some OnlyConfirmed, ord)
      else (None, ord\<lparr>o_status := OrderStatusShipped, o_updatedAt := now\<rparr>))"

definition Deliver :: "time \<Rightarrow> order \<Rightarrow> error option \<times> order" where
  "Deliver now ord =
     (if o_status ord \<noteq> OrderStatusShipped then (Some OnlyShipped, ord)
      else (None, ord\<lparr>o_status := OrderStatusDelivered, o_updatedAt := now\<rparr>))"

definition Cancel :: "time \<Rightarrow> order \<Rightarrow> error option \<times> order" where
  "Cancel now ord =
     (if o_status ord = OrderStatusDelivered then (Some AlreadyDelivered, ord)
      else if o_status ord = OrderStatusCancelled then (Some AlreadyCancelled, ord)
      else (None, ord\<lparr>o_status := OrderStatusCancelled, o_updatedAt := now\<rparr>))"

definition IsCancellable :: "order \<Rightarrow> bool" where
  "IsCancellable ord = (o_status ord \<noteq> OrderStatusDelivered \<and> o_status ord \<noteq> OrderStatusCancelled)"

subsection \<open>Repositories (domain/repository) as a sequential store\<close>

text \<open>
  The repositories are interfaces. The store follows their contract the way the mock
  repository of the service tests implements it: a collection of entities looked up by
  their own ID; \<^verbatim>\<open>FindByID\<close> fails with not-found for an ID that is absent;
  \<^verbatim>\<open>Update\<close> replaces the entity stored under the ID of its argument and fails with
  not-found when there is none; \<^verbatim>\<open>Save\<close> adds the entity. No call fails for another
  reason, and nothing else writes to the store between two calls of one operation.
\<close>

record store =
  st_products :: "product list"
  st_baskets :: "basket list"
  st_orders :: "order list"

definition ProductRepo_FindByID :: "string \<Rightarrow> product list \<Rightarrow> error + product" where
  "ProductRepo_FindByID ident rows =
     (case find (\<lambda>r. p_id r = ident) rows of
        None \<Rightarrow> Inl ProductNotFound
      | Some p \<Rightarrow> Inr p)"

definition ProductRepo_Update :: "product \<Rightarrow> product list \<Rightarrow> error + product list" where
  "ProductRepo_Update p rows =
     (case find (\<lambda>r. p_id r = p_id p) rows of
        None \<Rightarrow> Inl ProductNotFound
      | Some _ \<Rightarrow> Inr (map (\<lambda>r. if p_id r = p_id p then p else r) rows))"

definition BasketRepo_FindByID :: "string \<Rightarrow> basket list \<Rightarrow> error + basket" where
  "BasketRepo_FindByID ident rows =
     (case find (\<lambda>r. b_id r = ident) rows of
        None \<Rightarrow> Inl BasketNotFound
      | Some b \<Rightarrow> Inr b)"

definition BasketRepo_Update :: "basket \<Rightarrow> basket list \<Rightarrow> error + basket list" where
  "BasketRepo_Update b rows =
     (case find (\<lambda>r. b_id r = b_id b) rows of
        None \<Rightarrow> Inl BasketNotFound
      | Some _ \<Rightarrow> Inr (map (\<lambda>r. if b_id r = b_id b then b else r) rows))"

definition OrderRepo_Save :: "order \<Rightarrow> order list \<Rightarrow> order list" where
  "OrderRepo_Save ord rows = rows @ [ord]"

subsection \<open>OrderService.CreateOrder (application/service/order_service.go)\<close>

record order_item_response =
  ir_productID :: string
  ir_quantity :: go_int
  ir_price :: int64
  ir_currency :: string
  ir_subtotal :: int64

record order_response =
  r_id :: string
  r_items :: "order_item_response list"
  r_total :: int64
  r_currency :: string
  r_status :: string
  r_createdAt :: time
  r_updatedAt :: time

text \<open>
  \<^verbatim>\<open>toOrderResponse\<close> drops the error of \<^verbatim>\<open>Subtotal\<close> and reads the amount of its
  result, which is nil when \<^verbatim>\<open>Subtotal\<close> failed: a panic.
\<close>

fun item_responses :: "order_item list \<Rightarrow> error + order_item_response list" where
  "item_responses [] = Inr []"
| "item_responses (item # rest) =
     (case OrderItem_Subtotal item of
        Inl e \<Rightarrow> Inl RuntimePanic
      | Inr subtotal \<Rightarrow>
          (case item_responses rest of
             Inl e \<Rightarrow> Inl e
           | Inr rs \<Rightarrow>
               Inr (\<lparr>ir_productID = oi_productID item,
                     ir_quantity = qvalue (oi_quantity item),
                     ir_price = amount (oi_price item),
                     ir_currency = currency (oi_price item),
                     ir_subtotal = amount subtotal\<rparr> # rs)))"

definition toOrderResponse :: "order \<Rightarrow> error + order_response" where
  "toOrderResponse ord =
     (case item_responses (o_items ord) of
        Inl e \<Rightarrow> Inl e
      | Inr its \<Rightarrow>
          Inr \<lparr>r_id = o_id ord, r_items = its, r_total = amount (o_total ord),
               r_currency = currency (o_total ord), r_status = o_status ord,
               r_createdAt = o_createdAt ord, r_updatedAt = o_updatedAt ord\<rparr>)"

text \<open>The first loop of \<^verbatim>\<open>CreateOrder\<close>: verify stock availability for all items.\<close>

fun verify_stock :: "basket_item list \<Rightarrow> product list \<Rightarrow> error option" where
  "verify_stock [] rows = None"
| "verify_stock (item # rest) rows =
     (case ProductRepo_FindByID (bi_productID item) rows of
        Inl e \<Rightarrow> Some e
      | Inr p \<Rightarrow>
          if sint (qvalue (p_stock p)) < sint (qvalue (bi_quantity item))
          then Some (InsufficientStockFor (p_name p))
          else verify_stock rest rows)"

text \<open>
  The second loop: reduce stock for all items. It returns the error it stopped at (if
  any) and the product table as it is then; updates made before the error stay.
\<close>

fun reduce_stock :: "time \<Rightarrow> basket_item list \<Rightarrow> product list \<Rightarrow> error option \<times> product list" where
  "reduce_stock now [] rows = (None, rows)"
| "reduce_stock now (item # rest) rows =
     (case ProductRepo_FindByID (bi_productID item) rows of
        Inl e \<Rightarrow> (Some e, rows)
      | Inr p \<Rightarrow>
          (case ReduceStock now (bi_quantity item) p of
             (Some e, _) \<Rightarrow> (Some e, rows)
           | (None, p') \<Rightarrow>
               (case ProductRepo_Update p' rows of
                  Inl e \<Rightarrow> (Some e, rows)
                | Inr rows' \<Rightarrow> reduce_stock now rest rows')))"

definition CreateOrder ::
  "string \<Rightarrow> time \<Rightarrow> string \<Rightarrow> store \<Rightarrow> (error + order_response) \<times> store" where
  "CreateOrder uuid now basketID s =
     (if basketID = [] then (Inl BasketIDRequired, s)
      else case BasketRepo_FindByID basketID (st_baskets s) of
        Inl e \<Rightarrow> (Inl e, s)
      | Inr b \<Rightarrow>
          if IsEmpty b then (Inl EmptyBasket, s)
          else (case verify_stock (b_items b) (st_products s) of
                  Some e \<Rightarrow> (Inl e, s)
                | None \<Rightarrow>
                    (case reduce_stock now (b_items b) (st_products s) of
                       (Some e, rows) \<Rightarrow> (Inl e, s\<lparr>st_products := rows\<rparr>)
                     | (None, rows) \<Rightarrow>
                         (case NewOrder uuid now (b_items b) of
                            Inl e \<Rightarrow> (Inl e, s\<lparr>st_products := rows\<rparr>)
                          | Inr ord \<Rightarrow>
                              (case BasketRepo_Update (Clear now b) (st_baskets s) of
                                 Inl e \<Rightarrow>
                                   (Inl e, s\<lparr>st_products := rows,
                                             st_orders := OrderRepo_Save ord (st_orders s)\<rparr>)
                               | Inr bs \<Rightarrow>
                                   (toOrderResponse ord,
                                    s\<lparr>st_products := rows, st_baskets := bs,
                                      st_orders := OrderRepo_Save ord (st_orders s)\<rparr>))))))"

subsection \<open>Items with valid parts, and example data taken from the tests\<close>

text \<open>An item whose price and quantity are values \<^verbatim>\<open>NewMoney\<close> and \<^verbatim>\<open>NewQuantity\<close> accept.\<close>

definition priced_item :: "basket_item \<Rightarrow> bool" where
  "priced_item item = (valid_money (bi_price item) \<and> valid_quantity (bi_quantity item))"

definition usd_item :: "string \<Rightarrow> int64 \<Rightarrow> go_int \<Rightarrow> basket_item" where
  "usd_item productID cents n =
     \<lparr>bi_productID = productID, bi_quantity = \<lparr>qvalue = n\<rparr>,
      bi_price = \<lparr>amount = cents, currency = ''USD''\<rparr>\<rparr>"

definition eur_item :: "string \<Rightarrow> int64 \<Rightarrow> go_int \<Rightarrow> basket_item" where
  "eur_item productID cents n =
     \<lparr>bi_productID = productID, bi_quantity = \<lparr>qvalue = n\<rparr>,
      bi_price = \<lparr>amount = cents, currency = ''EUR''\<rparr>\<rparr>"

definition basket_of :: "basket_item list \<Rightarrow> basket" where
  "basket_of its = ReconstructBasket ''B'' its 1 1"

definition pending_order :: order where
  "pending_order =
     \<lparr>o_id = ''O'', o_items = [\<lparr>oi_productID = ''P'', oi_quantity = \<lparr>qvalue = 2\<rparr>,
          oi_price = \<lparr>amount = 1000, currency = ''USD''\<rparr>\<rparr>],
      o_total = \<lparr>amount = 2000, currency = ''USD''\<rparr>, o_status = ''PENDING'',
      o_createdAt = 1, o_updatedAt = 1\<rparr>"

subsection \<open>Stock of the items of a basket, and a product table for examples\<close>

definition nonneg_quantity :: "basket_item \<Rightarrow> bool" where
  "nonneg_quantity item = valid_quantity (bi_quantity item)"

text \<open>The item's product is in the table with stock at least the item's quantity.\<close>

definition in_stock :: "product list \<Rightarrow> basket_item \<Rightarrow> bool" where
  "in_stock rows item =
     (case ProductRepo_FindByID (bi_productID item) rows of
        Inl e \<Rightarrow> False
      | Inr p \<Rightarrow> sint (qvalue (bi_quantity item)) \<le> sint (qvalue (p_stock p)))"

text \<open>The item's product is in the table with stock strictly less than the item's quantity.\<close>

definition short_of_stock :: "product list \<Rightarrow> basket_item \<Rightarrow> bool" where
  "short_of_stock rows item =
     (case ProductRepo_FindByID (bi_productID item) rows of
        Inl e \<Rightarrow> False
      | Inr p \<Rightarrow> sint (qvalue (p_stock p)) < sint (qvalue (bi_quantity item)))"

definition product_exists :: "product list \<Rightarrow> basket_item \<Rightarrow> bool" where
  "product_exists rows item =
     (case ProductRepo_FindByID (bi_productID item) rows of Inl e \<Rightarrow> False | Inr p \<Rightarrow> True)"

definition product_P :: product where
  "product_P =
     \<lparr>p_id = ''P'', p_name = ''pen'', p_description = [],
      p_price = \<lparr>amount = 1000, currency = ''USD''\<rparr>, p_stock = \<lparr>qvalue = 5\<rparr>,
      p_createdAt = 1, p_updatedAt = 1\<rparr>"

definition product_Q :: product where
  "product_Q =
     \<lparr>p_id = ''Q'', p_name = ''ink'', p_description = [],
      p_price = \<lparr>amount = 1500, currency = ''USD''\<rparr>, p_stock = \<lparr>qvalue = 1\<rparr>,
      p_createdAt = 1, p_updatedAt = 1\<rparr>"

definition store_with :: "basket_item list \<Rightarrow> store" where
  "store_with its =
     \<lparr>st_products = [product_P, product_Q], st_baskets = [basket_of its], st_orders = []\<rparr>"

text \<open>The order item \<^verbatim>\<open>NewOrder\<close> makes of a basket item.\<close>

definition OrderItem_of :: "basket_item \<Rightarrow> order_item" where
  "OrderItem_of bi =
     \<lparr>oi_productID = bi_productID bi, oi_quantity = bi_quantity bi, oi_price = bi_price bi\<rparr>"

section \<open>Arithmetic of non-negative 64-bit values\<close>

lemma sint64_add_fits:
  fixes a b :: "64 word"
  assumes "0 \<le> sint a" "0 \<le> sint b" "sint a + sint b < 2 ^ 63"
  shows "sint (a + b) = sint a + sint b"
  using assms by (simp add: sint_word_ariths signed_take_bit_int_eq_self)

lemma sint64_add_wraps:
  fixes a b :: "64 word"
  assumes "0 \<le> sint a" "0 \<le> sint b" "\<not> sint a + sint b < 2 ^ 63"
  shows "sint (a + b) < 0"
proof -
  define k where "k = sint a + sint b"
  have a: "sint a < 2 ^ 63" using sint_lt [of a] by simp
  have b: "sint b < 2 ^ 63" using sint_lt [of b] by simp
  have lo: "2 ^ 63 \<le> k" and hi: "k < 2 ^ 64" using assms a b by (simp_all add: k_def)
  have "(k + 2 ^ 63) mod 2 ^ 64 = (k + 2 ^ 63 - 2 ^ 64) mod 2 ^ 64"
    by (metis minus_mod_self2)
  also have "\<dots> = k + 2 ^ 63 - 2 ^ 64"
    using lo hi by (intro mod_pos_pos_trivial) simp_all
  finally have "signed_take_bit 63 k = k - 2 ^ 64"
    by (simp add: signed_take_bit_eq_take_bit_shift take_bit_eq_mod)
  then show ?thesis using hi by (simp add: sint_word_ariths k_def)
qed

lemma sint64_mult_fits:
  fixes a b :: "64 word"
  assumes "0 \<le> sint a" "0 \<le> sint b" "sint a * sint b < 2 ^ 63"
  shows "sint (a * b) = sint a * sint b"
proof -
  have "0 \<le> sint a * sint b" using assms by simp
  then show ?thesis
    using assms(3) by (simp add: sint_word_ariths signed_take_bit_int_eq_self)
qed

lemma sint64_sub_fits:
  fixes a b :: "64 word"
  assumes "0 \<le> sint b" "sint b \<le> sint a"
  shows "sint (a - b) = sint a - sint b"
proof -
  have "sint a < 2 ^ 63" using sint_lt [of a] by simp
  then show ?thesis
    using assms by (simp add: sint_word_ariths signed_take_bit_int_eq_self)
qed

lemma sint64_sub_neg:
  fixes a b :: "64 word"
  assumes "0 \<le> sint a" "sint a < sint b"
  shows "sint (a - b) < 0"
proof -
  have "sint b < 2 ^ 63" using sint_lt [of b] by simp
  then have "sint (a - b) = sint a - sint b"
    using assms by (simp add: sint_word_ariths signed_take_bit_int_eq_self)
  then show ?thesis using assms by simp
qed

section \<open>Money\<close>

lemma Money_Add_valid:
  assumes "valid_money a" "valid_money b" "currency a = currency b"
  shows "Money_Add a b =
           (if sint (amount a) + sint (amount b) < 2 ^ 63
            then Inr \<lparr>amount = amount a + amount b, currency = currency a\<rparr>
            else Inl AmountNegative)"
proof (cases "sint (amount a) + sint (amount b) < 2 ^ 63")
  case True
  then have "sint (amount a + amount b) = sint (amount a) + sint (amount b)"
    using assms by (simp add: valid_money_def sint64_add_fits)
  then show ?thesis
    using assms True by (simp add: Money_Add_def NewMoney_def valid_money_def)
next
  case False
  then have "sint (amount a + amount b) < 0"
    using assms by (simp add: valid_money_def sint64_add_wraps)
  then show ?thesis
    using assms False by (simp add: Money_Add_def NewMoney_def)
qed

lemma Money_Add_commute:
  "currency a = currency b \<Longrightarrow> Money_Add a b = Money_Add b a"
  by (simp add: Money_Add_def add.commute)

lemma Money_Add_assoc:
  assumes "valid_money a" "valid_money b" "valid_money c"
    and "currency a = currency b" "currency b = currency c"
  shows "(case Money_Add a b of Inl e \<Rightarrow> Inl e | Inr ab \<Rightarrow> Money_Add ab c) =
         (case Money_Add b c of Inl e \<Rightarrow> Inl e | Inr bc \<Rightarrow> Money_Add a bc)"
proof -
  let ?a = "sint (amount a)" and ?b = "sint (amount b)" and ?c = "sint (amount c)"
  have nn: "0 \<le> ?a" "0 \<le> ?b" "0 \<le> ?c"
    using assms by (simp_all add: valid_money_def)
  show ?thesis
  proof (cases "?a + ?b + ?c < 2 ^ 63")
    case True
    have ab: "?a + ?b < 2 ^ 63" and bc: "?b + ?c < 2 ^ 63" using True nn by simp_all
    let ?ab = "\<lparr>amount = amount a + amount b, currency = currency a\<rparr>"
    let ?bc = "\<lparr>amount = amount b + amount c, currency = currency b\<rparr>"
    have sab: "sint (amount a + amount b) = ?a + ?b" using nn ab by (simp add: sint64_add_fits)
    have sbc: "sint (amount b + amount c) = ?b + ?c" using nn bc by (simp add: sint64_add_fits)
    have vab: "valid_money ?ab" using assms nn sab by (simp add: valid_money_def)
    have vbc: "valid_money ?bc" using assms nn sbc by (simp add: valid_money_def)
    have l: "Money_Add a b = Inr ?ab" using assms ab by (simp add: Money_Add_valid)
    have r: "Money_Add b c = Inr ?bc" using assms bc by (simp add: Money_Add_valid)
    have "Money_Add ?ab c = Inr \<lparr>amount = amount a + amount b + amount c, currency = currency a\<rparr>"
      using Money_Add_valid [OF vab assms(3)] assms True sab by simp
    moreover have "Money_Add a ?bc = Inr \<lparr>amount = amount a + (amount b + amount c), currency = currency a\<rparr>"
      using Money_Add_valid [OF assms(1) vbc] assms True sbc by (simp add: add.assoc)
    ultimately show ?thesis using l r by (simp add: add.assoc)
  next
    case False
    have l: "(case Money_Add a b of Inl e \<Rightarrow> Inl e | Inr ab \<Rightarrow> Money_Add ab c) = Inl AmountNegative"
    proof (cases "?a + ?b < 2 ^ 63")
      case ab: True
      let ?ab = "\<lparr>amount = amount a + amount b, currency = currency a\<rparr>"
      have sab: "sint (amount a + amount b) = ?a + ?b" using nn ab by (simp add: sint64_add_fits)
      have vab: "valid_money ?ab" using assms nn sab by (simp add: valid_money_def)
      have "Money_Add ?ab c = Inl AmountNegative"
        using Money_Add_valid [OF vab assms(3)] assms False sab by simp
      then show ?thesis using assms ab by (simp add: Money_Add_valid)
    next
      case False
      then show ?thesis using assms by (simp add: Money_Add_valid)
    qed
    have r: "(case Money_Add b c of Inl e \<Rightarrow> Inl e | Inr bc \<Rightarrow> Money_Add a bc) = Inl AmountNegative"
    proof (cases "?b + ?c < 2 ^ 63")
      case bc: True
      let ?bc = "\<lparr>amount = amount b + amount c, currency = currency b\<rparr>"
      have sbc: "sint (amount b + amount c) = ?b + ?c" using nn bc by (simp add: sint64_add_fits)
      have vbc: "valid_money ?bc" using assms nn sbc by (simp add: valid_money_def)
      have "Money_Add a ?bc = Inl AmountNegative"
        using Money_Add_valid [OF assms(1) vbc] assms False sbc by (simp add: add.assoc)
      then show ?thesis using assms bc by (simp add: Money_Add_valid)
    next
      case False
      then show ?thesis using assms by (simp add: Money_Add_valid)
    qed
    show ?thesis using l r by simp
  qed
qed

text \<open>
  Claim C3. For valid Money values of one currency, \<^verbatim>\<open>Add\<close> is commutative and
  associative (as results: both sides fail alike or give the same Money); for operands of
  different currencies \<^verbatim>\<open>Add\<close> returns the currency-mismatch error and no Money.
\<close>

theorem C3_money_add_laws:
  "(valid_money a \<and> valid_money b \<and> currency a = currency b
      \<longrightarrow> Money_Add a b = Money_Add b a) \<and>
   (valid_money a \<and> valid_money b \<and> valid_money c \<and>
    currency a = currency b \<and> currency b = currency c
      \<longrightarrow> (case Money_Add a b of Inl e \<Rightarrow> Inl e | Inr ab \<Rightarrow> Money_Add ab c) =
          (case Money_Add b c of Inl e \<Rightarrow> Inl e | Inr bc \<Rightarrow> Money_Add a bc)) \<and>
   (currency a \<noteq> currency b \<longrightarrow> Money_Add a b = Inl CurrencyMismatch)"
proof (intro conjI impI)
  assume "valid_money a \<and> valid_money b \<and> currency a = currency b"
  then show "Money_Add a b = Money_Add b a" by (simp add: Money_Add_commute)
next
  assume "valid_money a \<and> valid_money b \<and> valid_money c \<and>
    currency a = currency b \<and> currency b = currency c"
  then show "(case Money_Add a b of Inl e \<Rightarrow> Inl e | Inr ab \<Rightarrow> Money_Add ab c) =
          (case Money_Add b c of Inl e \<Rightarrow> Inl e | Inr bc \<Rightarrow> Money_Add a bc)"
    by (simp add: Money_Add_assoc)
next
  assume "currency a \<noteq> currency b"
  then show "Money_Add a b = Inl CurrencyMismatch" by (simp add: Money_Add_def)
qed

text \<open>C3 at 100, 250 and 7 cents USD, and at 100 USD against 100 EUR.\<close>

theorem C3_money_add_laws_witness:
  "valid_money \<lparr>amount = 100, currency = ''USD''\<rparr> \<and>
   valid_money \<lparr>amount = 250, currency = ''USD''\<rparr> \<and>
   valid_money \<lparr>amount = 7, currency = ''USD''\<rparr> \<and>
   Money_Add \<lparr>amount = 100, currency = ''USD''\<rparr> \<lparr>amount = 250, currency = ''USD''\<rparr> =
     Money_Add \<lparr>amount = 250, currency = ''USD''\<rparr> \<lparr>amount = 100, currency = ''USD''\<rparr> \<and>
   (case Money_Add \<lparr>amount = 100, currency = ''USD''\<rparr> \<lparr>amount = 250, currency = ''USD''\<rparr> of
      Inl e \<Rightarrow> Inl e | Inr ab \<Rightarrow> Money_Add ab \<lparr>amount = 7, currency = ''USD''\<rparr>) =
   (case Money_Add \<lparr>amount = 250, currency = ''USD''\<rparr> \<lparr>amount = 7, currency = ''USD''\<rparr> of
      Inl e \<Rightarrow> Inl e | Inr bc \<Rightarrow> Money_Add \<lparr>amount = 100, currency = ''USD''\<rparr> bc) \<and>
   Money_Add \<lparr>amount = 100, currency = ''USD''\<rparr> \<lparr>amount = 100, currency = ''EUR''\<rparr> =
     Inl CurrencyMismatch"
  using C3_money_add_laws [of "\<lparr>amount = 100, currency = ''USD''\<rparr>"
      "\<lparr>amount = 250, currency = ''USD''\<rparr>" "\<lparr>amount = 7, currency = ''USD''\<rparr>"]
    C3_money_add_laws [of "\<lparr>amount = 100, currency = ''USD''\<rparr>"
      "\<lparr>amount = 100, currency = ''EUR''\<rparr>" "\<lparr>amount = 7, currency = ''USD''\<rparr>"]
  by (simp add: valid_money_def Money_Add_def NewMoney_def)

lemma sint64_of_nat_mult:
  fixes a :: "64 word"
  assumes "0 \<le> sint a" "int k * sint a < 2 ^ 63"
  shows "sint (of_nat k * a) = int k * sint a"
proof -
  have "of_nat k * a = (word_of_int (int k * sint a) :: 64 word)" by simp
  then have "sint (of_nat k * a) = signed_take_bit 63 (int k * sint a)"
    by (simp only: sint_sbintrunc') simp
  moreover have "0 \<le> int k * sint a" using assms(1) by simp
  ultimately show ?thesis using assms(2) by (simp add: signed_take_bit_int_eq_self)
qed

lemma add_times_exact:
  assumes "valid_money m"
  shows "int k * sint (amount m) < 2 ^ 63 \<Longrightarrow>
    add_times k m = Inr \<lparr>amount = of_nat k * amount m, currency = currency m\<rparr>"
proof (induction k)
  case 0
  then show ?case using assms by (simp add: NewMoney_def valid_money_def)
next
  case (Suc k)
  let ?s = "sint (amount m)"
  let ?acc = "\<lparr>amount = of_nat k * amount m, currency = currency m\<rparr>"
  have s: "0 \<le> ?s" using assms by (simp add: valid_money_def)
  have le: "int k * ?s \<le> int (Suc k) * ?s" using s by (simp add: algebra_simps)
  then have fits: "int k * ?s < 2 ^ 63" using Suc.prems by linarith
  have acc: "add_times k m = Inr ?acc" using Suc.IH fits by simp
  have sacc: "sint (of_nat k * amount m) = int k * ?s"
    by (rule sint64_of_nat_mult [OF s fits])
  have vacc: "valid_money ?acc" using assms s sacc by (simp add: valid_money_def)
  have sum: "int k * ?s + ?s < 2 ^ 63" using Suc.prems by (simp add: algebra_simps)
  have "Money_Add ?acc m = Inr \<lparr>amount = of_nat k * amount m + amount m, currency = currency m\<rparr>"
    using Money_Add_valid [OF vacc assms] sacc sum by simp
  then show ?case using acc by (simp add: algebra_simps)
qed

lemma Money_Multiply_fits:
  assumes "valid_money m" "0 \<le> sint n" "sint (amount m) * sint n < 2 ^ 63"
  shows "Money_Multiply m n = Inr \<lparr>amount = amount m * n, currency = currency m\<rparr>"
    and "sint (amount m * n) = sint (amount m) * sint n"
proof -
  have nn: "0 \<le> sint (amount m)" using assms(1) by (simp add: valid_money_def)
  show s: "sint (amount m * n) = sint (amount m) * sint n"
    using nn assms(2,3) by (rule sint64_mult_fits)
  have "0 \<le> sint (amount m) * sint n" using nn assms(2) by (rule mult_nonneg_nonneg)
  then have "\<not> sint (amount m * n) < 0" unfolding s by linarith
  then show "Money_Multiply m n = Inr \<lparr>amount = amount m * n, currency = currency m\<rparr>"
    using assms(1,2) by (simp add: Money_Multiply_def NewMoney_def valid_money_def)
qed

text \<open>
  Claim C4, amended. For every valid Money \<open>m\<close> and every \<open>n \<ge> 0\<close> whose exact
  product with the amount of \<open>m\<close> is at most \<open>2^63 - 1\<close>, \<^verbatim>\<open>Multiply\<close> succeeds, its
  amount is that exact product, and it equals adding \<open>m\<close> to the zero Money of its
  currency \<open>n\<close> times; for every negative \<open>n\<close>, \<^verbatim>\<open>Multiply\<close> fails.
\<close>

theorem C4_multiply_repeated_addition:
  "(valid_money m \<and> 0 \<le> sint n \<and> sint (amount m) * sint n < 2 ^ 63 \<longrightarrow>
      Money_Multiply m n = Inr \<lparr>amount = amount m * n, currency = currency m\<rparr> \<and>
      sint (amount m * n) = sint (amount m) * sint n \<and>
      add_times (nat (sint n)) m = Money_Multiply m n) \<and>
   (sint n < 0 \<longrightarrow> Money_Multiply m n = Inl QuantityNegative)"
proof (intro conjI impI)
  assume h: "valid_money m \<and> 0 \<le> sint n \<and> sint (amount m) * sint n < 2 ^ 63"
  then show m: "Money_Multiply m n = Inr \<lparr>amount = amount m * n, currency = currency m\<rparr>"
    and "sint (amount m * n) = sint (amount m) * sint n"
    by (simp_all add: Money_Multiply_fits)
  have "int (nat (sint n)) * sint (amount m) < 2 ^ 63" using h by (simp add: mult.commute)
  then have "add_times (nat (sint n)) m =
      Inr \<lparr>amount = of_nat (nat (sint n)) * amount m, currency = currency m\<rparr>"
    using h add_times_exact by blast
  moreover have "of_nat (nat (sint n)) * amount m = amount m * n"
    using h by (simp add: mult.commute)
  ultimately show "add_times (nat (sint n)) m = Money_Multiply m n" using m by simp
next
  assume "sint n < 0"
  then show "Money_Multiply m n = Inl QuantityNegative" by (simp add: Money_Multiply_def)
qed

text \<open>
  Claim C4 as stated fails where the product leaves the range of \<^verbatim>\<open>int64\<close>: for the
  valid Money of \<open>2^62\<close> cents, \<^verbatim>\<open>Multiply(2)\<close> wraps to a negative amount and fails,
  and \<^verbatim>\<open>Multiply(4)\<close> wraps to 0 and succeeds, while adding four times fails.
\<close>

theorem C4_multiply_overflow_counterexample:
  "valid_money \<lparr>amount = 4611686018427387904, currency = ''USD''\<rparr> \<and>
   0 \<le> sint (2 :: go_int) \<and>
   Money_Multiply \<lparr>amount = 4611686018427387904, currency = ''USD''\<rparr> 2 = Inl AmountNegative \<and>
   Money_Multiply \<lparr>amount = 4611686018427387904, currency = ''USD''\<rparr> 4 = Inr \<lparr>amount = 0, currency = ''USD''\<rparr> \<and>
   add_times 4 \<lparr>amount = 4611686018427387904, currency = ''USD''\<rparr> = Inl AmountNegative"
  by code_simp

theorem C4_multiply_repeated_addition_witness:
  "valid_money \<lparr>amount = 1000, currency = ''USD''\<rparr> \<and> 0 \<le> sint (3 :: go_int) \<and>
   sint (amount \<lparr>amount = 1000, currency = ''USD''\<rparr>) * sint (3 :: go_int) < 2 ^ 63 \<and>
   Money_Multiply \<lparr>amount = 1000, currency = ''USD''\<rparr> 3 =
     Inr \<lparr>amount = 3000, currency = ''USD''\<rparr> \<and>
   add_times (nat (sint (3 :: go_int))) \<lparr>amount = 1000, currency = ''USD''\<rparr> =
     Money_Multiply \<lparr>amount = 1000, currency = ''USD''\<rparr> 3 \<and>
   sint (- 1 :: go_int) < 0 \<and>
   Money_Multiply \<lparr>amount = 1000, currency = ''USD''\<rparr> (- 1) = Inl QuantityNegative"
  using C4_multiply_repeated_addition [of "\<lparr>amount = 1000, currency = ''USD''\<rparr>" 3]
    C4_multiply_repeated_addition [of "\<lparr>amount = 1000, currency = ''USD''\<rparr>" "- 1"]
  by (simp add: valid_money_def)

section \<open>Product stock\<close>

text \<open>
  Claim C5. For a product and a quantity (both with non-negative values, as
  \<^verbatim>\<open>NewQuantity\<close> guarantees): when the quantity exceeds the stock, \<^verbatim>\<open>ReduceStock\<close>
  fails with the insufficient-stock error and leaves the product as it was; otherwise it
  succeeds and the new stock is the old stock minus the quantity.
\<close>

theorem C5_reduce_stock:
  "valid_quantity (p_stock p) \<and> valid_quantity q \<longrightarrow>
     (sint (qvalue (p_stock p)) < sint (qvalue q) \<longrightarrow>
        ReduceStock now q p = (Some InsufficientStock, p)) \<and>
     (sint (qvalue q) \<le> sint (qvalue (p_stock p)) \<longrightarrow>
        ReduceStock now q p =
          (None, p\<lparr>p_stock := \<lparr>qvalue = qvalue (p_stock p) - qvalue q\<rparr>, p_updatedAt := now\<rparr>) \<and>
        sint (qvalue (p_stock p) - qvalue q) = sint (qvalue (p_stock p)) - sint (qvalue q))"
proof (intro impI conjI)
  assume v: "valid_quantity (p_stock p) \<and> valid_quantity q"
  {
    assume "sint (qvalue (p_stock p)) < sint (qvalue q)"
    then have "sint (qvalue (p_stock p) - qvalue q) < 0"
      using v by (simp add: valid_quantity_def sint64_sub_neg)
    then show "ReduceStock now q p = (Some InsufficientStock, p)"
      by (simp add: ReduceStock_def Quantity_Subtract_def)
  }
  {
    assume le: "sint (qvalue q) \<le> sint (qvalue (p_stock p))"
    then show s: "sint (qvalue (p_stock p) - qvalue q) = sint (qvalue (p_stock p)) - sint (qvalue q)"
      using v by (simp add: valid_quantity_def sint64_sub_fits)
    then show "ReduceStock now q p =
          (None, p\<lparr>p_stock := \<lparr>qvalue = qvalue (p_stock p) - qvalue q\<rparr>, p_updatedAt := now\<rparr>)"
      using le by (simp add: ReduceStock_def Quantity_Subtract_def NewQuantity_def)
  }
qed


theorem C5_reduce_stock_witness:
  "valid_quantity \<lparr>qvalue = 5\<rparr> \<and> valid_quantity \<lparr>qvalue = 7\<rparr> \<and>
   valid_quantity \<lparr>qvalue = 2\<rparr> \<and>
   ReduceStock 9 \<lparr>qvalue = 7\<rparr>
     \<lparr>p_id = ''P'', p_name = ''pen'', p_description = [],
      p_price = \<lparr>amount = 1000, currency = ''USD''\<rparr>, p_stock = \<lparr>qvalue = 5\<rparr>,
      p_createdAt = 1, p_updatedAt = 1\<rparr> =
     (Some InsufficientStock,
      \<lparr>p_id = ''P'', p_name = ''pen'', p_description = [],
       p_price = \<lparr>amount = 1000, currency = ''USD''\<rparr>, p_stock = \<lparr>qvalue = 5\<rparr>,
       p_createdAt = 1, p_updatedAt = 1\<rparr>) \<and>
   ReduceStock 9 \<lparr>qvalue = 2\<rparr>
     \<lparr>p_id = ''P'', p_name = ''pen'', p_description = [],
      p_price = \<lparr>amount = 1000, currency = ''USD''\<rparr>, p_stock = \<lparr>qvalue = 5\<rparr>,
      p_createdAt = 1, p_updatedAt = 1\<rparr> =
     (None,
      \<lparr>p_id = ''P'', p_name = ''pen'', p_description = [],
       p_price = \<lparr>amount = 1000, currency = ''USD''\<rparr>, p_stock = \<lparr>qvalue = 3\<rparr>,
       p_createdAt = 1, p_updatedAt = 9\<rparr>)"
  using C5_reduce_stock [of "\<lparr>p_id = ''P'', p_name = ''pen'', p_description = [],
      p_price = \<lparr>amount = 1000, currency = ''USD''\<rparr>, p_stock = \<lparr>qvalue = 5\<rparr>,
      p_createdAt = 1, p_updatedAt = 1\<rparr>" "\<lparr>qvalue = 7\<rparr>" 9]
    C5_reduce_stock [of "\<lparr>p_id = ''P'', p_name = ''pen'', p_description = [],
      p_price = \<lparr>amount = 1000, currency = ''USD''\<rparr>, p_stock = \<lparr>qvalue = 5\<rparr>,
      p_createdAt = 1, p_updatedAt = 1\<rparr>" "\<lparr>qvalue = 2\<rparr>" 9]
  by (simp add: valid_quantity_def)

section \<open>Order status transitions\<close>

lemma Confirm_cases:
  "(fst (Confirm now ord) = None) = (o_status ord = OrderStatusPending)"
  "fst (Confirm now ord) = None \<longrightarrow> o_status (snd (Confirm now ord)) = OrderStatusConfirmed"
  "fst (Confirm now ord) \<noteq> None \<longrightarrow> snd (Confirm now ord) = ord"
  by (simp_all add: Confirm_def)

lemma Ship_cases:
  "(fst (Ship now ord) = None) = (o_status ord = OrderStatusConfirmed)"
  "fst (Ship now ord) = None \<longrightarrow> o_status (snd (Ship now ord)) = OrderStatusShipped"
  "fst (Ship now ord) \<noteq> None \<longrightarrow> snd (Ship now ord) = ord"
  by (simp_all add: Ship_def)

lemma Deliver_cases:
  "(fst (Deliver now ord) = None) = (o_status ord = OrderStatusShipped)"
  "fst (Deliver now ord) = None \<longrightarrow> o_status (snd (Deliver now ord)) = OrderStatusDelivered"
  "fst (Deliver now ord) \<noteq> None \<longrightarrow> snd (Deliver now ord) = ord"
  by (simp_all add: Deliver_def)

lemma Cancel_cases:
  "(fst (Cancel now ord) = None) =
      (o_status ord \<noteq> OrderStatusDelivered \<and> o_status ord \<noteq> OrderStatusCancelled)"
  "fst (Cancel now ord) = None \<longrightarrow> o_status (snd (Cancel now ord)) = OrderStatusCancelled"
  "fst (Cancel now ord) \<noteq> None \<longrightarrow> snd (Cancel now ord) = ord"
  by (simp_all add: Cancel_def)

text \<open>
  Claim C6. For every order (whatever its status string): \<^verbatim>\<open>Confirm\<close> succeeds iff the
  status is PENDING and sets it to CONFIRMED; \<^verbatim>\<open>Ship\<close> succeeds iff it is CONFIRMED;
  \<^verbatim>\<open>Deliver\<close> succeeds iff it is SHIPPED; \<^verbatim>\<open>Cancel\<close> succeeds iff it is neither
  DELIVERED nor CANCELLED; a transition that fails returns an error and leaves the order,
  and so its status, unchanged.
\<close>

theorem C6_order_transitions:
  "((fst (Confirm now ord) = None) = (o_status ord = OrderStatusPending)) \<and>
   (fst (Confirm now ord) = None \<longrightarrow> o_status (snd (Confirm now ord)) = OrderStatusConfirmed) \<and>
   (fst (Confirm now ord) \<noteq> None \<longrightarrow> snd (Confirm now ord) = ord) \<and>
   ((fst (Ship now ord) = None) = (o_status ord = OrderStatusConfirmed)) \<and>
   (fst (Ship now ord) = None \<longrightarrow> o_status (snd (Ship now ord)) = OrderStatusShipped) \<and>
   (fst (Ship now ord) \<noteq> None \<longrightarrow> snd (Ship now ord) = ord) \<and>
   ((fst (Deliver now ord) = None) = (o_status ord = OrderStatusShipped)) \<and>
   (fst (Deliver now ord) = None \<longrightarrow> o_status (snd (Deliver now ord)) = OrderStatusDelivered) \<and>
   (fst (Deliver now ord) \<noteq> None \<longrightarrow> snd (Deliver now ord) = ord) \<and>
   ((fst (Cancel now ord) = None) =
      (o_status ord \<noteq> OrderStatusDelivered \<and> o_status ord \<noteq> OrderStatusCancelled)) \<and>
   (fst (Cancel now ord) = None \<longrightarrow> o_status (snd (Cancel now ord)) = OrderStatusCancelled) \<and>
   (fst (Cancel now ord) \<noteq> None \<longrightarrow> snd (Cancel now ord) = ord)"
  by (intro conjI Confirm_cases Ship_cases Deliver_cases Cancel_cases)

theorem C6_order_transitions_witness:
  "o_status (snd (Confirm 5 pending_order)) = ''CONFIRMED'' \<and>
   fst (Confirm 5 pending_order) = None \<and>
   fst (Ship 5 pending_order) = Some OnlyConfirmed \<and> snd (Ship 5 pending_order) = pending_order \<and>
   fst (Deliver 5 pending_order) = Some OnlyShipped \<and> snd (Deliver 5 pending_order) = pending_order \<and>
   fst (Cancel 5 pending_order) = None \<and> o_status (snd (Cancel 5 pending_order)) = ''CANCELLED'' \<and>
   fst (Cancel 5 (pending_order\<lparr>o_status := ''DELIVERED''\<rparr>)) = Some AlreadyDelivered \<and>
   snd (Cancel 5 (pending_order\<lparr>o_status := ''DELIVERED''\<rparr>)) = pending_order\<lparr>o_status := ''DELIVERED''\<rparr> \<and>
   snd (Confirm 5 (pending_order\<lparr>o_status := ''DELIVERED''\<rparr>)) = pending_order\<lparr>o_status := ''DELIVERED''\<rparr>"
  using C6_order_transitions [of 5 pending_order]
    C6_order_transitions [of 5 "pending_order\<lparr>o_status := ''DELIVERED''\<rparr>"]
  by (simp add: pending_order_def Confirm_def Ship_def Deliver_def Cancel_def
      OrderStatusPending_def OrderStatusConfirmed_def OrderStatusShipped_def
      OrderStatusDelivered_def OrderStatusCancelled_def)


section \<open>Basket total\<close>

lemma exact_total_Cons:
  "exact_total (item # its) =
     sint (amount (bi_price item)) * sint (qvalue (bi_quantity item)) + exact_total its"
  by (simp add: exact_total_def)

lemma exact_total_nonneg: "list_all priced_item its \<Longrightarrow> 0 \<le> exact_total its"
  by (induction its) (simp_all add: exact_total_def priced_item_def valid_money_def valid_quantity_def)

lemma sint64_of_int_fits:
  assumes "0 \<le> k" "k < 2 ^ 63"
  shows "sint (word_of_int k :: 64 word) = k"
  using assms by (simp only: sint_sbintrunc') (simp add: signed_take_bit_int_eq_self)

lemma BasketItem_Subtotal_fits:
  assumes "priced_item item"
    and "sint (amount (bi_price item)) * sint (qvalue (bi_quantity item)) < 2 ^ 63"
  shows "BasketItem_Subtotal item =
           Inr \<lparr>amount = amount (bi_price item) * qvalue (bi_quantity item),
                currency = currency (bi_price item)\<rparr>"
    and "sint (amount (bi_price item) * qvalue (bi_quantity item)) =
           sint (amount (bi_price item)) * sint (qvalue (bi_quantity item))"
  using assms Money_Multiply_fits [of "bi_price item" "qvalue (bi_quantity item)"]
  by (simp_all add: BasketItem_Subtotal_def priced_item_def valid_quantity_def)

lemma Total_loop_exact:
  assumes "list_all priced_item its"
  shows "valid_money acc \<Longrightarrow> sint (amount acc) + exact_total its < 2 ^ 63 \<Longrightarrow>
    Total_loop acc its =
      (if list_all (\<lambda>i. currency (bi_price i) = currency acc) its
       then Inr \<lparr>amount = amount acc + word_of_int (exact_total its), currency = currency acc\<rparr>
       else Inl CurrencyMismatch)"
  using assms
proof (induction its arbitrary: acc)
  case Nil
  then show ?case by (simp add: exact_total_def)
next
  case (Cons item its)
  let ?p = "sint (amount (bi_price item)) * sint (qvalue (bi_quantity item))"
  let ?sub = "\<lparr>amount = amount (bi_price item) * qvalue (bi_quantity item),
                currency = currency (bi_price item)\<rparr>"
  have pi: "priced_item item" and rest: "list_all priced_item its" using Cons.prems by simp_all
  have p0: "0 \<le> ?p" using pi by (simp add: priced_item_def valid_money_def valid_quantity_def)
  have r0: "0 \<le> exact_total its" using rest by (rule exact_total_nonneg)
  have a0: "0 \<le> sint (amount acc)" using Cons.prems(1) by (simp add: valid_money_def)
  have bound: "sint (amount acc) + ?p + exact_total its < 2 ^ 63"
    using Cons.prems(2) by (simp add: exact_total_Cons)
  have pfit: "?p < 2 ^ 63" using bound a0 r0 by linarith
  have sub: "BasketItem_Subtotal item = Inr ?sub"
    and ssub: "sint (amount (bi_price item) * qvalue (bi_quantity item)) = ?p"
    using BasketItem_Subtotal_fits [OF pi pfit] by simp_all
  have vsub: "valid_money ?sub" using pi p0 ssub by (simp add: priced_item_def valid_money_def)
  show ?case
  proof (cases "currency (bi_price item) = currency acc")
    case False
    then have "Money_Add acc ?sub = Inl CurrencyMismatch" by (simp add: Money_Add_def)
    then show ?thesis using sub False by simp
  next
    case True
    let ?acc' = "\<lparr>amount = amount acc + amount (bi_price item) * qvalue (bi_quantity item),
                  currency = currency acc\<rparr>"
    have fit: "sint (amount acc) + ?p < 2 ^ 63" using bound r0 by linarith
    have add: "Money_Add acc ?sub = Inr ?acc'"
      using Money_Add_valid [OF Cons.prems(1) vsub] True ssub fit by simp
    have sacc': "sint (amount ?acc') = sint (amount acc) + ?p"
      using sint64_add_fits [OF a0 _ _, of "amount (bi_price item) * qvalue (bi_quantity item)"]
        ssub p0 fit by simp
    have vacc': "valid_money ?acc'"
      using Cons.prems(1) sacc' a0 p0 by (simp add: valid_money_def)
    have "Total_loop ?acc' its =
      (if list_all (\<lambda>i. currency (bi_price i) = currency ?acc') its
       then Inr \<lparr>amount = amount ?acc' + word_of_int (exact_total its), currency = currency ?acc'\<rparr>
       else Inl CurrencyMismatch)"
      using Cons.IH [OF vacc' _ rest] sacc' bound by simp
    then show ?thesis using sub add True by (simp add: exact_total_Cons add.assoc)
  qed
qed


lemma Total_empty: "IsEmpty b \<Longrightarrow> Total b = Inr \<lparr>amount = 0, currency = ''USD''\<rparr>"
  by (simp add: Total_def NewMoney_def)

lemma Total_exact:
  assumes its: "b_items b = first # rest" and pr: "list_all priced_item (b_items b)"
    and fit: "exact_total (b_items b) < 2 ^ 63"
  shows "Total b =
     (if list_all (\<lambda>i. currency (bi_price i) = currency (bi_price first)) (b_items b)
      then Inr \<lparr>amount = word_of_int (exact_total (b_items b)),
                currency = currency (bi_price first)\<rparr>
      else Inl CurrencyMismatch)"
proof -
  let ?zero = "\<lparr>amount = 0, currency = currency (bi_price first)\<rparr>"
  have c: "currency (bi_price first) \<noteq> []"
    using its pr by (simp add: priced_item_def valid_money_def)
  then have z: "NewMoney 0 (currency (bi_price first)) = Inr ?zero" by (simp add: NewMoney_def)
  have vz: "valid_money ?zero" using c by (simp add: valid_money_def)
  have "Total_loop ?zero (b_items b) =
      (if list_all (\<lambda>i. currency (bi_price i) = currency ?zero) (b_items b)
       then Inr \<lparr>amount = amount ?zero + word_of_int (exact_total (b_items b)),
                 currency = currency ?zero\<rparr>
       else Inl CurrencyMismatch)"
    using Total_loop_exact [OF pr vz] fit by simp
  moreover have "Total b = Total_loop ?zero (b_items b)"
    using its z by (simp add: Total_def IsEmpty_def)
  ultimately show ?thesis by simp
qed

text \<open>
  Claim C8, amended. \<^verbatim>\<open>Total\<close> of an empty basket is zero Money in "USD". For a
  non-empty basket of items with valid price and quantity whose exact total is at most
  \<open>2^63 - 1\<close>: if all items have the currency of the first item, \<^verbatim>\<open>Total\<close> returns
  the exact sum of price times quantity in that currency; if some item has another
  currency, \<^verbatim>\<open>Total\<close> fails with the currency-mismatch error.
\<close>

theorem C8_basket_total:
  "(IsEmpty b \<longrightarrow> Total b = Inr \<lparr>amount = 0, currency = ''USD''\<rparr>) \<and>
   (b_items b = first # rest \<and> list_all priced_item (b_items b) \<and>
    exact_total (b_items b) < 2 ^ 63 \<longrightarrow>
      (list_all (\<lambda>i. currency (bi_price i) = currency (bi_price first)) (b_items b) \<longrightarrow>
         Total b = Inr \<lparr>amount = word_of_int (exact_total (b_items b)),
                        currency = currency (bi_price first)\<rparr> \<and>
         sint (word_of_int (exact_total (b_items b)) :: int64) = exact_total (b_items b)) \<and>
      (\<not> list_all (\<lambda>i. currency (bi_price i) = currency (bi_price first)) (b_items b) \<longrightarrow>
         Total b = Inl CurrencyMismatch))"
proof (intro conjI impI)
  assume "IsEmpty b"
  then show "Total b = Inr \<lparr>amount = 0, currency = ''USD''\<rparr>" by (rule Total_empty)
next
  assume h: "b_items b = first # rest \<and> list_all priced_item (b_items b) \<and>
    exact_total (b_items b) < 2 ^ 63"
  assume same: "list_all (\<lambda>i. currency (bi_price i) = currency (bi_price first)) (b_items b)"
  from h have i: "b_items b = first # rest" and p: "list_all priced_item (b_items b)"
    and f: "exact_total (b_items b) < 2 ^ 63" by blast+
  show "Total b = Inr \<lparr>amount = word_of_int (exact_total (b_items b)),
                        currency = currency (bi_price first)\<rparr>"
    using Total_exact [OF i p f] same by simp
  have "0 \<le> exact_total (b_items b)" using p by (rule exact_total_nonneg)
  then show "sint (word_of_int (exact_total (b_items b)) :: int64) = exact_total (b_items b)"
    using f by (rule sint64_of_int_fits)
next
  assume h: "b_items b = first # rest \<and> list_all priced_item (b_items b) \<and>
    exact_total (b_items b) < 2 ^ 63"
  assume diff: "\<not> list_all (\<lambda>i. currency (bi_price i) = currency (bi_price first)) (b_items b)"
  from h have i: "b_items b = first # rest" and p: "list_all priced_item (b_items b)"
    and f: "exact_total (b_items b) < 2 ^ 63" by blast+
  show "Total b = Inl CurrencyMismatch"
    using Total_exact [OF i p f] diff by simp
qed

theorem C8_basket_total_witness:
  "IsEmpty (basket_of []) \<and> Total (basket_of []) = Inr \<lparr>amount = 0, currency = ''USD''\<rparr> \<and>
   list_all priced_item [usd_item ''product-1'' 1000 2, usd_item ''product-2'' 1500 1] \<and>
   exact_total [usd_item ''product-1'' 1000 2, usd_item ''product-2'' 1500 1] = 3500 \<and>
   Total (basket_of [usd_item ''product-1'' 1000 2, usd_item ''product-2'' 1500 1]) =
     Inr \<lparr>amount = 3500, currency = ''USD''\<rparr> \<and>
   list_all priced_item [usd_item ''product-1'' 1000 2, eur_item ''product-2'' 1500 1] \<and>
   exact_total [usd_item ''product-1'' 1000 2, eur_item ''product-2'' 1500 1] < 2 ^ 63 \<and>
   Total (basket_of [usd_item ''product-1'' 1000 2, eur_item ''product-2'' 1500 1]) =
     Inl CurrencyMismatch"
  using C8_basket_total [of "basket_of []" "usd_item ''product-1'' 1000 2" "[]"]
    C8_basket_total [of "basket_of [usd_item ''product-1'' 1000 2, usd_item ''product-2'' 1500 1]"
      "usd_item ''product-1'' 1000 2" "[usd_item ''product-2'' 1500 1]"]
    C8_basket_total [of "basket_of [usd_item ''product-1'' 1000 2, eur_item ''product-2'' 1500 1]"
      "usd_item ''product-1'' 1000 2" "[eur_item ''product-2'' 1500 1]"]
  by (simp add: basket_of_def ReconstructBasket_def usd_item_def eur_item_def IsEmpty_def
      priced_item_def valid_money_def valid_quantity_def exact_total_def)

text \<open>
  Claim C8 as stated fails where a subtotal leaves the range of \<^verbatim>\<open>int64\<close>: one item
  of \<open>2^62\<close> cents with quantity 2 makes \<^verbatim>\<open>Total\<close> fail, and it fails with that error,
  not with currency-mismatch, when an item of another currency follows.
\<close>

theorem C8_total_overflow_counterexample:
  "list_all priced_item [usd_item ''product-1'' 4611686018427387904 2] \<and>
   Total (basket_of [usd_item ''product-1'' 4611686018427387904 2]) = Inl AmountNegative \<and>
   list_all priced_item [usd_item ''product-1'' 4611686018427387904 2, eur_item ''product-2'' 1 1] \<and>
   Total (basket_of [usd_item ''product-1'' 4611686018427387904 2, eur_item ''product-2'' 1 1]) =
     Inl AmountNegative"
  by (simp add: basket_of_def ReconstructBasket_def usd_item_def eur_item_def IsEmpty_def
      priced_item_def valid_money_def valid_quantity_def Total_def NewMoney_def
      BasketItem_Subtotal_def Money_Multiply_def Money_Add_def)

section \<open>Basket items\<close>

lemma NewBasketItem_ok:
  "productID \<noteq> [] \<Longrightarrow> qvalue q \<noteq> 0 \<Longrightarrow>
   NewBasketItem productID (Some q) (Some pr) =
     Inr \<lparr>bi_productID = productID, bi_quantity = q, bi_price = pr\<rparr>"
  by (simp add: NewBasketItem_def IsZero_def)

lemma AddItem_existing_absent:
  "productID \<notin> set (map bi_productID its) \<Longrightarrow> AddItem_existing productID q pr its = None"
  by (induction its) auto

lemma map_replace_absent:
  "productID \<notin> set (map bi_productID its) \<Longrightarrow>
   map (\<lambda>i. if bi_productID i = productID then new else i) its = its"
  by (induction its) auto

lemma AddItem_existing_present:
  assumes "productID \<noteq> []" "0 \<le> sint (qvalue q)"
  shows "distinct (map bi_productID its) \<Longrightarrow> item \<in> set its \<Longrightarrow>
    bi_productID item = productID \<Longrightarrow> 0 < sint (qvalue (bi_quantity item)) \<Longrightarrow>
    sint (qvalue (bi_quantity item)) + sint (qvalue q) < 2 ^ 63 \<Longrightarrow>
    AddItem_existing productID q pr its =
      Some (Inr (map (\<lambda>i. if bi_productID i = productID
                           then \<lparr>bi_productID = productID,
                                 bi_quantity = \<lparr>qvalue = qvalue (bi_quantity item) + qvalue q\<rparr>,
                                 bi_price = pr\<rparr>
                           else i) its))"
proof (induction its)
  case Nil
  then show ?case by simp
next
  case (Cons x xs)
  let ?new = "\<lparr>bi_productID = productID,
                bi_quantity = \<lparr>qvalue = qvalue (bi_quantity item) + qvalue q\<rparr>, bi_price = pr\<rparr>"
  show ?case
  proof (cases "bi_productID x = productID")
    case True
    have notin: "productID \<notin> set (map bi_productID xs)" using Cons.prems(1) True by auto
    then have "item \<notin> set xs" using Cons.prems(3) by auto
    then have x: "x = item" using Cons.prems(2) by simp
    have s: "sint (qvalue (bi_quantity item) + qvalue q) =
        sint (qvalue (bi_quantity item)) + sint (qvalue q)"
      using Cons.prems(4,5) assms(2) by (simp add: sint64_add_fits)
    then have pos: "0 < sint (qvalue (bi_quantity item) + qvalue q)"
      using Cons.prems(4) assms(2) by simp
    then have nz: "qvalue (bi_quantity item) + qvalue q \<noteq> 0" by auto
    have qa: "Quantity_Add (bi_quantity item) q =
        Inr \<lparr>qvalue = qvalue (bi_quantity item) + qvalue q\<rparr>"
      using pos by (simp add: Quantity_Add_def NewQuantity_def)
    have nb: "NewBasketItem productID
        (Some \<lparr>qvalue = qvalue (bi_quantity item) + qvalue q\<rparr>) (Some pr) = Inr ?new"
      using assms(1) nz by (simp add: NewBasketItem_ok)
    show ?thesis using True x qa nb map_replace_absent [OF notin] by simp
  next
    case False
    then have "item \<in> set xs" using Cons.prems(2,3) by auto
    then show ?thesis using Cons False by simp
  qed
qed


lemma filter_replace_distinct:
  "distinct (map bi_productID its) \<Longrightarrow> productID \<in> set (map bi_productID its) \<Longrightarrow>
   bi_productID new = productID \<Longrightarrow>
   filter (\<lambda>i. bi_productID i = productID)
     (map (\<lambda>i. if bi_productID i = productID then new else i) its) = [new]"
proof (induction its)
  case Nil
  then show ?case by simp
next
  case (Cons x xs)
  show ?case
  proof (cases "bi_productID x = productID")
    case True
    then have notin: "productID \<notin> set (map bi_productID xs)" using Cons.prems(1) by auto
    then have "filter (\<lambda>i. bi_productID i = productID) xs = []"
      by (induction xs) auto
    then show ?thesis using True Cons.prems(3) map_replace_absent [OF notin] by simp
  next
    case False
    then show ?thesis using Cons by auto
  qed
qed

text \<open>
  Claim C7, amended. In a basket with pairwise-distinct product IDs, for a non-empty
  product ID that is present with a positive quantity, and an added quantity \<open>q2 \<ge> 0\<close>
  such that old quantity plus \<open>q2\<close> is at most \<open>2^63 - 1\<close>: \<^verbatim>\<open>AddItem\<close> succeeds and
  replaces that item in place, leaving exactly one item with the product ID, whose
  quantity is the old quantity plus \<open>q2\<close> and whose price is the incoming price. For a
  non-empty product ID that is not present and a non-zero quantity, \<^verbatim>\<open>AddItem\<close>
  succeeds and appends the new item.
\<close>

theorem C7_add_item:
  "(distinct (map bi_productID (b_items b)) \<and> item \<in> set (b_items b) \<and>
    bi_productID item = productID \<and> productID \<noteq> [] \<and>
    0 < sint (qvalue (bi_quantity item)) \<and> 0 \<le> sint (qvalue q2) \<and>
    sint (qvalue (bi_quantity item)) + sint (qvalue q2) < 2 ^ 63 \<longrightarrow>
      fst (AddItem now productID q2 price2 b) = None \<and>
      b_items (snd (AddItem now productID q2 price2 b)) =
        map (\<lambda>i. if bi_productID i = productID
                  then \<lparr>bi_productID = productID,
                        bi_quantity = \<lparr>qvalue = qvalue (bi_quantity item) + qvalue q2\<rparr>,
                        bi_price = price2\<rparr>
                  else i) (b_items b) \<and>
      filter (\<lambda>i. bi_productID i = productID) (b_items (snd (AddItem now productID q2 price2 b))) =
        [\<lparr>bi_productID = productID,
          bi_quantity = \<lparr>qvalue = qvalue (bi_quantity item) + qvalue q2\<rparr>,
          bi_price = price2\<rparr>] \<and>
      sint (qvalue (bi_quantity item) + qvalue q2) =
        sint (qvalue (bi_quantity item)) + sint (qvalue q2)) \<and>
   (productID \<notin> set (map bi_productID (b_items b)) \<and> productID \<noteq> [] \<and> qvalue q2 \<noteq> 0 \<longrightarrow>
      fst (AddItem now productID q2 price2 b) = None \<and>
      b_items (snd (AddItem now productID q2 price2 b)) =
        b_items b @ [\<lparr>bi_productID = productID, bi_quantity = q2, bi_price = price2\<rparr>])"
proof (intro conjI impI)
  let ?new = "\<lparr>bi_productID = productID,
                bi_quantity = \<lparr>qvalue = qvalue (bi_quantity item) + qvalue q2\<rparr>,
                bi_price = price2\<rparr>"
  let ?its = "map (\<lambda>i. if bi_productID i = productID then ?new else i) (b_items b)"
  assume h: "distinct (map bi_productID (b_items b)) \<and> item \<in> set (b_items b) \<and>
    bi_productID item = productID \<and> productID \<noteq> [] \<and>
    0 < sint (qvalue (bi_quantity item)) \<and> 0 \<le> sint (qvalue q2) \<and>
    sint (qvalue (bi_quantity item)) + sint (qvalue q2) < 2 ^ 63"
  then have d: "distinct (map bi_productID (b_items b))" and m: "item \<in> set (b_items b)"
    and p: "bi_productID item = productID" and ne: "productID \<noteq> []"
    and old: "0 < sint (qvalue (bi_quantity item))" and q: "0 \<le> sint (qvalue q2)"
    and fit: "sint (qvalue (bi_quantity item)) + sint (qvalue q2) < 2 ^ 63"
    by blast+
  have ex: "AddItem_existing productID q2 price2 (b_items b) = Some (Inr ?its)"
    using AddItem_existing_present [OF ne q d m p old fit] .
  show "fst (AddItem now productID q2 price2 b) = None"
    using ex by (simp add: AddItem_def)
  show its: "b_items (snd (AddItem now productID q2 price2 b)) = ?its"
    using ex by (simp add: AddItem_def)
  have "productID \<in> set (map bi_productID (b_items b))" using m p by auto
  then show "filter (\<lambda>i. bi_productID i = productID)
      (b_items (snd (AddItem now productID q2 price2 b))) = [?new]"
    unfolding its using d by (intro filter_replace_distinct) simp_all
  show "sint (qvalue (bi_quantity item) + qvalue q2) =
        sint (qvalue (bi_quantity item)) + sint (qvalue q2)"
    using old q fit by (simp add: sint64_add_fits)
next
  assume h: "productID \<notin> set (map bi_productID (b_items b)) \<and> productID \<noteq> [] \<and> qvalue q2 \<noteq> 0"
  then have a: "AddItem_existing productID q2 price2 (b_items b) = None"
    using AddItem_existing_absent by blast
  have n: "NewBasketItem productID (Some q2) (Some price2) =
     Inr \<lparr>bi_productID = productID, bi_quantity = q2, bi_price = price2\<rparr>"
    using h by (simp add: NewBasketItem_ok)
  show "fst (AddItem now productID q2 price2 b) = None"
    using a n by (simp add: AddItem_def)
  show "b_items (snd (AddItem now productID q2 price2 b)) =
        b_items b @ [\<lparr>bi_productID = productID, bi_quantity = q2, bi_price = price2\<rparr>]"
    using a n by (simp add: AddItem_def)
qed

theorem C7_add_item_witness:
  "fst (AddItem 9 ''product-1'' \<lparr>qvalue = 3\<rparr> \<lparr>amount = 1200, currency = ''USD''\<rparr>
         (basket_of [usd_item ''product-1'' 1000 2])) = None \<and>
   b_items (snd (AddItem 9 ''product-1'' \<lparr>qvalue = 3\<rparr> \<lparr>amount = 1200, currency = ''USD''\<rparr>
         (basket_of [usd_item ''product-1'' 1000 2]))) = [usd_item ''product-1'' 1200 5] \<and>
   fst (AddItem 9 ''product-2'' \<lparr>qvalue = 3\<rparr> \<lparr>amount = 1200, currency = ''USD''\<rparr>
         (basket_of [usd_item ''product-1'' 1000 2])) = None \<and>
   b_items (snd (AddItem 9 ''product-2'' \<lparr>qvalue = 3\<rparr> \<lparr>amount = 1200, currency = ''USD''\<rparr>
         (basket_of [usd_item ''product-1'' 1000 2]))) =
     [usd_item ''product-1'' 1000 2, usd_item ''product-2'' 1200 3]"
  using C7_add_item [of "basket_of [usd_item ''product-1'' 1000 2]" "usd_item ''product-1'' 1000 2"
      "''product-1''" "\<lparr>qvalue = 3\<rparr>" 9 "\<lparr>amount = 1200, currency = ''USD''\<rparr>"]
    C7_add_item [of "basket_of [usd_item ''product-1'' 1000 2]" "usd_item ''product-1'' 1000 2"
      "''product-2''" "\<lparr>qvalue = 3\<rparr>" 9 "\<lparr>amount = 1200, currency = ''USD''\<rparr>"]
  by (simp add: basket_of_def ReconstructBasket_def usd_item_def)

text \<open>
  Claim C7 as stated fails in three ways: a quantity of zero for a product ID that is not
  present is rejected and nothing is appended; for a present item with quantity
  \<open>2^63 - 1\<close>, adding 1 wraps negative and is rejected; and in a basket that already
  holds two items with the product ID (as \<^verbatim>\<open>ReconstructBasket\<close> accepts), only the first
  is replaced and two items with that product ID remain.
\<close>

theorem C7_add_item_counterexample:
  "AddItem 9 ''product-1'' \<lparr>qvalue = 0\<rparr> \<lparr>amount = 1000, currency = ''USD''\<rparr> (basket_of []) =
     (Some QuantityNotPositive, basket_of []) \<and>
   AddItem 9 ''product-1'' \<lparr>qvalue = 1\<rparr> \<lparr>amount = 1000, currency = ''USD''\<rparr>
       (basket_of [usd_item ''product-1'' 1000 9223372036854775807]) =
     (Some QuantityNegative, basket_of [usd_item ''product-1'' 1000 9223372036854775807]) \<and>
   b_items (snd (AddItem 9 ''product-1'' \<lparr>qvalue = 1\<rparr> \<lparr>amount = 1000, currency = ''USD''\<rparr>
       (basket_of [usd_item ''product-1'' 1000 2, usd_item ''product-1'' 1000 4]))) =
     [usd_item ''product-1'' 1000 3, usd_item ''product-1'' 1000 4]"
  by (simp add: basket_of_def ReconstructBasket_def usd_item_def AddItem_def
      NewBasketItem_def IsZero_def Quantity_Add_def NewQuantity_def)


section \<open>Basket invariants\<close>

lemma positive_quantity_iff:
  "positive_quantity item = (0 \<le> sint (qvalue (bi_quantity item)) \<and> qvalue (bi_quantity item) \<noteq> 0)"
  by (auto simp: positive_quantity_def order_less_le signed_eq_0_iff)

lemma NewBasketItem_Inr:
  "NewBasketItem productID (Some q) (Some pr) = Inr item \<Longrightarrow>
   item = \<lparr>bi_productID = productID, bi_quantity = q, bi_price = pr\<rparr> \<and>
   productID \<noteq> [] \<and> qvalue q \<noteq> 0"
  by (auto simp: NewBasketItem_def IsZero_def split: if_splits)

lemma Quantity_Add_Inr:
  "Quantity_Add a q = Inr r \<Longrightarrow> 0 \<le> sint (qvalue r)"
  by (auto simp: Quantity_Add_def NewQuantity_def split: if_splits)

lemma AddItem_existing_None: 
  "AddItem_existing productID q pr its = None \<Longrightarrow> productID \<notin> set (map bi_productID its)"
  by (induction its) (auto split: if_splits sum.splits option.splits)

lemma AddItem_existing_keeps:
  "AddItem_existing productID q pr its = Some (Inr its') \<Longrightarrow>
   map bi_productID its' = map bi_productID its \<and>
   (list_all good_item its \<longrightarrow> list_all good_item its')"
proof (induction its arbitrary: its')
  case Nil
  then show ?case by simp
next
  case (Cons x xs)
  show ?case
  proof (cases "bi_productID x = productID")
    case True
    from Cons.prems True obtain nq newItem where
      qa: "Quantity_Add (bi_quantity x) q = Inr nq" and
      nb: "NewBasketItem productID (Some nq) (Some pr) = Inr newItem" and
      its': "its' = newItem # xs"
      by (auto split: sum.splits)
    have "good_item newItem"
      using NewBasketItem_Inr [OF nb] Quantity_Add_Inr [OF qa]
      by (simp add: good_item_def positive_quantity_iff)
    moreover have "bi_productID newItem = productID" using NewBasketItem_Inr [OF nb] by simp
    ultimately show ?thesis using its' True by simp
  next
    case False
    from Cons.prems False obtain rest' where
      r: "AddItem_existing productID q pr xs = Some (Inr rest')" and its': "its' = x # rest'"
      by (auto split: sum.splits option.splits)
    show ?thesis using Cons.IH [OF r] its' by simp
  qed
qed

lemma UpdateItemQuantity_existing_keeps:
  assumes "0 \<le> sint (qvalue q)"
  shows "UpdateItemQuantity_existing productID q its = Some (Inr its') \<Longrightarrow>
   map bi_productID its' = map bi_productID its \<and>
   (list_all good_item its \<longrightarrow> list_all good_item its')"
proof (induction its arbitrary: its')
  case Nil
  then show ?case by simp
next
  case (Cons x xs)
  show ?case
  proof (cases "bi_productID x = productID")
    case True
    from Cons.prems True obtain newItem where
      nb: "NewBasketItem productID (Some q) (Some (bi_price x)) = Inr newItem" and
      its': "its' = newItem # xs"
      by (auto split: sum.splits)
    have "good_item newItem"
      using NewBasketItem_Inr [OF nb] assms
      by (simp add: good_item_def positive_quantity_iff)
    moreover have "bi_productID newItem = productID" using NewBasketItem_Inr [OF nb] by simp
    ultimately show ?thesis using its' True by simp
  next
    case False
    from Cons.prems False obtain rest' where
      r: "UpdateItemQuantity_existing productID q xs = Some (Inr rest')" and its': "its' = x # rest'"
      by (auto split: sum.splits option.splits)
    show ?thesis using Cons.IH [OF r] its' by simp
  qed
qed

lemma RemoveItem_first_keeps:
  "RemoveItem_first productID its = Some its' \<Longrightarrow>
   set its' \<subseteq> set its \<and>
   (distinct (map bi_productID its) \<longrightarrow> distinct (map bi_productID its'))"
proof (induction its arbitrary: its')
  case Nil
  then show ?case by simp
next
  case (Cons x xs)
  show ?case
  proof (cases "bi_productID x = productID")
    case True
    then show ?thesis using Cons.prems by auto
  next
    case False
    from Cons.prems False obtain rest' where
      r: "RemoveItem_first productID xs = Some rest'" and its': "its' = x # rest'"
      by auto
    show ?thesis using Cons.IH [OF r] its' by auto
  qed
qed

lemma AddItem_inv:
  assumes "basket_inv b" "valid_quantity q"
  shows "basket_inv (snd (AddItem now productID q pr b))"
proof (cases "AddItem_existing productID q pr (b_items b)")
  case None
  show ?thesis
  proof (cases "NewBasketItem productID (Some q) (Some pr)")
    case (Inl e)
    then show ?thesis using None assms by (simp add: AddItem_def)
  next
    case (Inr item)
    have "good_item item"
      using NewBasketItem_Inr [OF Inr] assms(2)
      by (simp add: good_item_def positive_quantity_iff valid_quantity_def)
    moreover have "bi_productID item \<notin> set (map bi_productID (b_items b))"
      using NewBasketItem_Inr [OF Inr] AddItem_existing_None [OF None] by simp
    ultimately show ?thesis using None Inr assms(1) by (simp add: AddItem_def basket_inv_def)
  qed
next
  case (Some r)
  show ?thesis
  proof (cases r)
    case (Inl e)
    then show ?thesis using Some assms by (simp add: AddItem_def)
  next
    case (Inr its')
    then show ?thesis
      using Some assms(1) AddItem_existing_keeps [of productID q pr "b_items b" its']
      by (simp add: AddItem_def basket_inv_def)
  qed
qed

lemma RemoveItem_inv:
  assumes "basket_inv b"
  shows "basket_inv (snd (RemoveItem now productID b))"
proof (cases "RemoveItem_first productID (b_items b)")
  case None
  then show ?thesis using assms by (simp add: RemoveItem_def)
next
  case (Some its')
  have "list_all good_item its'"
    using RemoveItem_first_keeps [OF Some] assms by (auto simp: basket_inv_def list_all_iff)
  then show ?thesis
    using Some assms RemoveItem_first_keeps [OF Some] by (simp add: RemoveItem_def basket_inv_def)
qed

lemma UpdateItemQuantity_inv:
  assumes "basket_inv b" "valid_quantity q"
  shows "basket_inv (snd (UpdateItemQuantity now productID q b))"
proof (cases "IsZero q")
  case True
  then show ?thesis using RemoveItem_inv [OF assms(1)] by (simp add: UpdateItemQuantity_def)
next
  case False
  show ?thesis
  proof (cases "UpdateItemQuantity_existing productID q (b_items b)")
    case None
    then show ?thesis using False assms by (simp add: UpdateItemQuantity_def)
  next
    case (Some r)
    show ?thesis
    proof (cases r)
      case (Inl e)
      then show ?thesis using Some False assms by (simp add: UpdateItemQuantity_def)
    next
      case (Inr its')
      have "0 \<le> sint (qvalue q)" using assms(2) by (simp add: valid_quantity_def)
      from UpdateItemQuantity_existing_keeps [OF this, of productID "b_items b" its']
      show ?thesis using Some Inr False assms(1)
        by (simp add: UpdateItemQuantity_def basket_inv_def)
    qed
  qed
qed


text \<open>
  Claim C10. \<^verbatim>\<open>ReconstructBasket\<close> returns the items it is given, unchecked: with two
  items of one product ID, or with an item of quantity zero, the basket it returns
  violates the invariants; \<^verbatim>\<open>NewBasket\<close> establishes them and \<^verbatim>\<open>AddItem\<close>,
  \<^verbatim>\<open>RemoveItem\<close> and \<^verbatim>\<open>UpdateItemQuantity\<close> keep them, whether they succeed or fail.
  \<^verbatim>\<open>ReconstructProduct\<close> likewise accepts the empty name that \<^verbatim>\<open>NewProduct\<close> rejects.
\<close>

theorem C10_reconstruct_no_validation:
  "b_items (ReconstructBasket ident its c u) = its \<and>
   \<not> basket_inv (ReconstructBasket ident [item, item] c u) \<and>
   (qvalue (bi_quantity item) = 0 \<longrightarrow> \<not> basket_inv (ReconstructBasket ident [item] c u)) \<and>
   basket_inv (NewBasket uuid now) \<and>
   (basket_inv b \<and> valid_quantity q \<longrightarrow> basket_inv (snd (AddItem now productID q price b))) \<and>
   (basket_inv b \<longrightarrow> basket_inv (snd (RemoveItem now productID b))) \<and>
   (basket_inv b \<and> valid_quantity q \<longrightarrow>
      basket_inv (snd (UpdateItemQuantity now productID q b))) \<and>
   p_name (ReconstructProduct pident [] d pr st pc pu) = [] \<and>
   NewProduct puuid now [] d (Some pr) (Some st) = Inl ProductNameEmpty"
proof (intro conjI impI)
  show "b_items (ReconstructBasket ident its c u) = its" by (simp add: ReconstructBasket_def)
  show "\<not> basket_inv (ReconstructBasket ident [item, item] c u)"
    by (simp add: ReconstructBasket_def basket_inv_def)
  show "\<not> basket_inv (ReconstructBasket ident [item] c u)" if "qvalue (bi_quantity item) = 0"
    using that by (simp add: ReconstructBasket_def basket_inv_def good_item_def positive_quantity_def)
  show "basket_inv (NewBasket uuid now)" by (simp add: NewBasket_def basket_inv_def)
  show "basket_inv (snd (AddItem now productID q price b))" if "basket_inv b \<and> valid_quantity q"
    using that AddItem_inv by blast
  show "basket_inv (snd (RemoveItem now productID b))" if "basket_inv b"
    using that by (rule RemoveItem_inv)
  show "basket_inv (snd (UpdateItemQuantity now productID q b))"
    if "basket_inv b \<and> valid_quantity q"
    using that UpdateItemQuantity_inv by blast
  show "p_name (ReconstructProduct pident [] d pr st pc pu) = []" by (simp add: ReconstructProduct_def)
  show "NewProduct puuid now [] d (Some pr) (Some st) = Inl ProductNameEmpty"
    by (simp add: NewProduct_def)
qed

theorem C10_reconstruct_no_validation_witness:
  "\<not> basket_inv (ReconstructBasket ''B'' [usd_item ''product-1'' 1000 2, usd_item ''product-1'' 1000 2] 1 1) \<and>
   qvalue (bi_quantity (usd_item ''product-1'' 1000 0)) = 0 \<and>
   \<not> basket_inv (ReconstructBasket ''B'' [usd_item ''product-1'' 1000 0] 1 1) \<and>
   basket_inv (NewBasket ''B'' 1) \<and> valid_quantity \<lparr>qvalue = 2\<rparr> \<and>
   basket_inv (snd (AddItem 1 ''product-1'' \<lparr>qvalue = 2\<rparr> \<lparr>amount = 1000, currency = ''USD''\<rparr>
      (NewBasket ''B'' 1))) \<and>
   basket_inv (snd (RemoveItem 1 ''product-1'' (NewBasket ''B'' 1))) \<and>
   basket_inv (snd (UpdateItemQuantity 1 ''product-1'' \<lparr>qvalue = 2\<rparr> (NewBasket ''B'' 1))) \<and>
   NewProduct ''P'' 1 [] ''pen'' (Some \<lparr>amount = 1000, currency = ''USD''\<rparr>) (Some \<lparr>qvalue = 5\<rparr>) =
     Inl ProductNameEmpty \<and>
   p_name (ReconstructProduct ''P'' [] ''pen'' \<lparr>amount = 1000, currency = ''USD''\<rparr> \<lparr>qvalue = 5\<rparr> 1 1) = []"
  using C10_reconstruct_no_validation [where ident = "''B''" and its = "[]" and c = 1 and u = 1
      and item = "usd_item ''product-1'' 1000 2" and uuid = "''B''" and now = 1
      and b = "NewBasket ''B'' 1" and q = "\<lparr>qvalue = 2\<rparr>" and productID = "''product-1''"
      and price = "\<lparr>amount = 1000, currency = ''USD''\<rparr>" and d = "''pen''"
      and pr = "\<lparr>amount = 1000, currency = ''USD''\<rparr>" and st = "\<lparr>qvalue = 5\<rparr>"
      and pident = "''P''" and pc = 1 and pu = 1 and puuid = "''P''"]
    C10_reconstruct_no_validation [where ident = "''B''" and its = "[]" and c = 1 and u = 1
      and item = "usd_item ''product-1'' 1000 0" and uuid = "''B''" and now = 1
      and b = "NewBasket ''B'' 1" and q = "\<lparr>qvalue = 2\<rparr>" and productID = "''product-1''"
      and price = "\<lparr>amount = 1000, currency = ''USD''\<rparr>" and d = "''pen''"
      and pr = "\<lparr>amount = 1000, currency = ''USD''\<rparr>" and st = "\<lparr>qvalue = 5\<rparr>"
      and pident = "''P''" and pc = 1 and pu = 1 and puuid = "''P''"]
  by (simp add: valid_quantity_def usd_item_def)

section \<open>Checkout: the two passes over the items\<close>

lemma FindByID_id:
  "ProductRepo_FindByID ident rows = Inr p \<Longrightarrow> p_id p = ident"
  by (auto simp: ProductRepo_FindByID_def find_Some_iff split: option.splits)

lemma FindByID_Update_other:
  "ProductRepo_Update p rows = Inr rows' \<Longrightarrow> ident \<noteq> p_id p \<Longrightarrow>
   ProductRepo_FindByID ident rows' = ProductRepo_FindByID ident rows"
proof -
  have "find (\<lambda>r. p_id r = ident) (map (\<lambda>r. if p_id r = p_id p then p else r) rows) =
        find (\<lambda>r. p_id r = ident) rows" if "ident \<noteq> p_id p"
    using that by (induction rows) auto
  then show "ProductRepo_Update p rows = Inr rows' \<Longrightarrow> ident \<noteq> p_id p \<Longrightarrow>
   ProductRepo_FindByID ident rows' = ProductRepo_FindByID ident rows"
    by (auto simp: ProductRepo_Update_def ProductRepo_FindByID_def split: option.splits)
qed

lemma FindByID_Update_same:
  "ProductRepo_Update p rows = Inr rows' \<Longrightarrow> ProductRepo_FindByID (p_id p) rows' = Inr p"
proof -
  have "find (\<lambda>r. p_id r = p_id p) (map (\<lambda>r. if p_id r = p_id p then p else r) rows) = Some p"
    if "find (\<lambda>r. p_id r = p_id p) rows = Some x" for x
    using that by (induction rows) (auto split: if_splits)
  then show "ProductRepo_Update p rows = Inr rows' \<Longrightarrow> ProductRepo_FindByID (p_id p) rows' = Inr p"
    by (auto simp: ProductRepo_Update_def ProductRepo_FindByID_def split: option.splits)
qed

lemma Update_found:
  "ProductRepo_FindByID (p_id p) rows = Inr x \<Longrightarrow>
   ProductRepo_Update p rows = Inr (map (\<lambda>r. if p_id r = p_id p then p else r) rows)"
  by (auto simp: ProductRepo_Update_def ProductRepo_FindByID_def split: option.splits)

lemma verify_stock_other:
  "\<forall>item \<in> set its. bi_productID item \<noteq> p_id p \<Longrightarrow> ProductRepo_Update p rows = Inr rows' \<Longrightarrow>
   verify_stock its rows' = verify_stock its rows"
  by (induction its) (auto simp: FindByID_Update_other split: sum.splits)

lemma ReduceStock_id:
  "ReduceStock now q p = (None, p') \<Longrightarrow> p_id p' = p_id p"
  by (auto simp: ReduceStock_def split: sum.splits)

lemma ReduceStock_enough:
  assumes "0 \<le> sint (qvalue q)" "\<not> sint (qvalue (p_stock p)) < sint (qvalue q)"
  shows "ReduceStock now q p =
     (None, p\<lparr>p_stock := \<lparr>qvalue = qvalue (p_stock p) - qvalue q\<rparr>, p_updatedAt := now\<rparr>)"
    and "sint (qvalue (p_stock p) - qvalue q) = sint (qvalue (p_stock p)) - sint (qvalue q)"
proof -
  show s: "sint (qvalue (p_stock p) - qvalue q) = sint (qvalue (p_stock p)) - sint (qvalue q)"
    using assms by (simp add: sint64_sub_fits)
  then show "ReduceStock now q p =
     (None, p\<lparr>p_stock := \<lparr>qvalue = qvalue (p_stock p) - qvalue q\<rparr>, p_updatedAt := now\<rparr>)"
    using assms by (simp add: ReduceStock_def Quantity_Subtract_def NewQuantity_def)
qed

lemma reduce_stock_ok:
  "distinct (map bi_productID its) \<Longrightarrow> list_all nonneg_quantity its \<Longrightarrow>
   verify_stock its rows = None \<Longrightarrow> fst (reduce_stock now its rows) = None"
proof (induction its arbitrary: rows)
  case Nil
  then show ?case by simp
next
  case (Cons item its)
  from Cons.prems(3) obtain p where
    f: "ProductRepo_FindByID (bi_productID item) rows = Inr p" and
    enough: "\<not> sint (qvalue (p_stock p)) < sint (qvalue (bi_quantity item))" and
    rest: "verify_stock its rows = None"
    by (auto split: sum.splits if_splits)
  have q: "0 \<le> sint (qvalue (bi_quantity item))"
    using Cons.prems(2) by (simp add: nonneg_quantity_def valid_quantity_def)
  let ?p' = "p\<lparr>p_stock := \<lparr>qvalue = qvalue (p_stock p) - qvalue (bi_quantity item)\<rparr>,
               p_updatedAt := now\<rparr>"
  have r: "ReduceStock now (bi_quantity item) p = (None, ?p')"
    using ReduceStock_enough(1) [OF q enough] .
  have pid: "p_id ?p' = bi_productID item" using FindByID_id [OF f] by simp
  let ?rows' = "map (\<lambda>r. if p_id r = p_id ?p' then ?p' else r) rows"
  have u: "ProductRepo_Update ?p' rows = Inr ?rows'"
    using f pid by (intro Update_found [of _ _ p]) simp
  have "bi_productID item \<notin> set (map bi_productID its)" using Cons.prems(1) by simp
  then have "\<forall>i \<in> set its. bi_productID i \<noteq> p_id ?p'" unfolding pid by (induction its) auto
  then have "verify_stock its ?rows' = None"
    using verify_stock_other [OF _ u] rest by simp
  then have "fst (reduce_stock now its ?rows') = None"
    using Cons.IH Cons.prems(1,2) by simp
  then show ?case using f r u by simp
qed

text \<open>
  Claim C9. In the sequential store, for items with pairwise-distinct product IDs (and
  quantities that are not negative, as \<^verbatim>\<open>NewQuantity\<close> guarantees), if the pre-check
  pass succeeds then the reduction pass returns no error: in particular no
  \<^verbatim>\<open>ReduceStock\<close> call fails, so its insufficient-stock branch is not reached.
\<close>

theorem C9_reduce_pass_cannot_fail:
  "distinct (map bi_productID its) \<and> list_all nonneg_quantity its \<and>
   verify_stock its rows = None \<longrightarrow>
     fst (reduce_stock now its rows) = None \<and>
     fst (reduce_stock now its rows) \<noteq> Some InsufficientStock"
  using reduce_stock_ok [of its rows now] by simp


lemma verify_stock_None_iff:
  "(verify_stock its rows = None) = list_all (in_stock rows) its"
  by (induction its) (auto simp: in_stock_def split: sum.splits)

lemma reduce_stock_result:
  "distinct (map bi_productID its) \<Longrightarrow> list_all nonneg_quantity its \<Longrightarrow>
   verify_stock its rows = None \<Longrightarrow>
   \<exists>rows'. reduce_stock now its rows = (None, rows') \<and>
     (\<forall>item \<in> set its. \<exists>p.
        ProductRepo_FindByID (bi_productID item) rows = Inr p \<and>
        ProductRepo_FindByID (bi_productID item) rows' =
          Inr (p\<lparr>p_stock := \<lparr>qvalue = qvalue (p_stock p) - qvalue (bi_quantity item)\<rparr>,
                 p_updatedAt := now\<rparr>) \<and>
        sint (qvalue (p_stock p) - qvalue (bi_quantity item)) =
          sint (qvalue (p_stock p)) - sint (qvalue (bi_quantity item))) \<and>
     (\<forall>ident. ident \<notin> set (map bi_productID its) \<longrightarrow>
        ProductRepo_FindByID ident rows' = ProductRepo_FindByID ident rows)"
proof (induction its arbitrary: rows)
  case Nil
  then show ?case by simp
next
  case (Cons item its)
  from Cons.prems(3) obtain p where
    f: "ProductRepo_FindByID (bi_productID item) rows = Inr p" and
    enough: "\<not> sint (qvalue (p_stock p)) < sint (qvalue (bi_quantity item))" and
    rest: "verify_stock its rows = None"
    by (auto split: sum.splits if_splits)
  have q: "0 \<le> sint (qvalue (bi_quantity item))"
    using Cons.prems(2) by (simp add: nonneg_quantity_def valid_quantity_def)
  let ?p' = "p\<lparr>p_stock := \<lparr>qvalue = qvalue (p_stock p) - qvalue (bi_quantity item)\<rparr>,
               p_updatedAt := now\<rparr>"
  have r: "ReduceStock now (bi_quantity item) p = (None, ?p')"
    using ReduceStock_enough(1) [OF q enough] .
  have sub: "sint (qvalue (p_stock p) - qvalue (bi_quantity item)) =
          sint (qvalue (p_stock p)) - sint (qvalue (bi_quantity item))"
    using ReduceStock_enough(2) [OF q enough] .
  have pid: "p_id ?p' = bi_productID item" using FindByID_id [OF f] by simp
  let ?rows1 = "map (\<lambda>r. if p_id r = p_id ?p' then ?p' else r) rows"
  have u: "ProductRepo_Update ?p' rows = Inr ?rows1"
    using f pid by (intro Update_found [of _ _ p]) simp
  have notin: "bi_productID item \<notin> set (map bi_productID its)" using Cons.prems(1) by simp
  then have others: "\<forall>i \<in> set its. bi_productID i \<noteq> p_id ?p'"
    unfolding pid by (induction its) auto
  have v1: "verify_stock its ?rows1 = None"
    using verify_stock_other [OF others u] rest by simp
  have d: "distinct (map bi_productID its)" and n: "list_all nonneg_quantity its"
    using Cons.prems(1,2) by simp_all
  from Cons.IH [OF d n v1] obtain rows' where
    run: "reduce_stock now its ?rows1 = (None, rows')" and
    each: "\<forall>i \<in> set its. \<exists>p.
        ProductRepo_FindByID (bi_productID i) ?rows1 = Inr p \<and>
        ProductRepo_FindByID (bi_productID i) rows' =
          Inr (p\<lparr>p_stock := \<lparr>qvalue = qvalue (p_stock p) - qvalue (bi_quantity i)\<rparr>,
                 p_updatedAt := now\<rparr>) \<and>
        sint (qvalue (p_stock p) - qvalue (bi_quantity i)) =
          sint (qvalue (p_stock p)) - sint (qvalue (bi_quantity i))" and
    frame: "\<forall>ident. ident \<notin> set (map bi_productID its) \<longrightarrow>
        ProductRepo_FindByID ident rows' = ProductRepo_FindByID ident ?rows1"
    by blast
  have whole: "reduce_stock now (item # its) rows = (None, rows')"
    using f r u run by simp
  have head: "ProductRepo_FindByID (bi_productID item) rows' = Inr ?p'"
    using frame notin FindByID_Update_same [OF u] pid by simp
  have tail: "\<exists>p. ProductRepo_FindByID (bi_productID i) rows = Inr p \<and>
        ProductRepo_FindByID (bi_productID i) rows' =
          Inr (p\<lparr>p_stock := \<lparr>qvalue = qvalue (p_stock p) - qvalue (bi_quantity i)\<rparr>,
                 p_updatedAt := now\<rparr>) \<and>
        sint (qvalue (p_stock p) - qvalue (bi_quantity i)) =
          sint (qvalue (p_stock p)) - sint (qvalue (bi_quantity i))" if "i \<in> set its" for i
  proof -
    have "bi_productID i \<noteq> p_id ?p'" using others that by blast
    then have "ProductRepo_FindByID (bi_productID i) ?rows1 = ProductRepo_FindByID (bi_productID i) rows"
      using FindByID_Update_other [OF u] by blast
    then show ?thesis using each that by force
  qed
  have fr: "ProductRepo_FindByID ident rows' = ProductRepo_FindByID ident rows"
    if "ident \<notin> set (map bi_productID (item # its))" for ident
  proof -
    have "ident \<noteq> p_id ?p'" using that pid by simp
    then have "ProductRepo_FindByID ident ?rows1 = ProductRepo_FindByID ident rows"
      using FindByID_Update_other [OF u] by blast
    moreover have "ident \<notin> set (map bi_productID its)" using that by simp
    ultimately show ?thesis using frame by simp
  qed
  have all: "\<forall>i \<in> set (item # its). \<exists>p.
        ProductRepo_FindByID (bi_productID i) rows = Inr p \<and>
        ProductRepo_FindByID (bi_productID i) rows' =
          Inr (p\<lparr>p_stock := \<lparr>qvalue = qvalue (p_stock p) - qvalue (bi_quantity i)\<rparr>,
                 p_updatedAt := now\<rparr>) \<and>
        sint (qvalue (p_stock p) - qvalue (bi_quantity i)) =
          sint (qvalue (p_stock p)) - sint (qvalue (bi_quantity i))"
  proof
    fix i assume "i \<in> set (item # its)"
    then consider "i = item" | "i \<in> set its" by auto
    then show "\<exists>p. ProductRepo_FindByID (bi_productID i) rows = Inr p \<and>
        ProductRepo_FindByID (bi_productID i) rows' =
          Inr (p\<lparr>p_stock := \<lparr>qvalue = qvalue (p_stock p) - qvalue (bi_quantity i)\<rparr>,
                 p_updatedAt := now\<rparr>) \<and>
        sint (qvalue (p_stock p) - qvalue (bi_quantity i)) =
          sint (qvalue (p_stock p)) - sint (qvalue (bi_quantity i))"
    proof cases
      case 1
      then show ?thesis using f head sub by blast
    next
      case 2
      then show ?thesis by (rule tail)
    qed
  qed
  show ?case using whole all fr by blast
qed

text \<open>C9 at the items P (2 of 5 in stock) and Q (1 of 1 in stock).\<close>

theorem C9_reduce_pass_cannot_fail_witness:
  "distinct (map bi_productID [usd_item ''P'' 1000 2, usd_item ''Q'' 1500 1]) \<and>
   list_all nonneg_quantity [usd_item ''P'' 1000 2, usd_item ''Q'' 1500 1] \<and>
   verify_stock [usd_item ''P'' 1000 2, usd_item ''Q'' 1500 1] [product_P, product_Q] = None \<and>
   fst (reduce_stock 9 [usd_item ''P'' 1000 2, usd_item ''Q'' 1500 1] [product_P, product_Q]) = None"
  using C9_reduce_pass_cannot_fail [of "[usd_item ''P'' 1000 2, usd_item ''Q'' 1500 1]"
      "[product_P, product_Q]" 9]
  by (simp add: usd_item_def product_P_def product_Q_def nonneg_quantity_def valid_quantity_def
      ProductRepo_FindByID_def)

lemma FindByID_Inl: "ProductRepo_FindByID ident rows = Inl e \<Longrightarrow> e = ProductNotFound"
  by (auto simp: ProductRepo_FindByID_def split: option.splits)

lemma short_not_in_stock: "short_of_stock rows item \<Longrightarrow> \<not> in_stock rows item"
  by (auto simp: short_of_stock_def in_stock_def split: sum.splits)

lemma first_offender_exists:
  "list_ex (short_of_stock rows) its \<Longrightarrow> \<exists>item. find (\<lambda>i. \<not> in_stock rows i) its = Some item"
  by (induction its) (auto dest: short_not_in_stock)

lemma verify_stock_first_missing:
  "find (\<lambda>i. \<not> in_stock rows i) its = Some item \<Longrightarrow> \<not> product_exists rows item \<Longrightarrow>
   verify_stock its rows = Some ProductNotFound"
proof (induction its)
  case Nil
  then show ?case by simp
next
  case (Cons x xs)
  show ?case
  proof (cases "in_stock rows x")
    case True
    then have "find (\<lambda>i. \<not> in_stock rows i) xs = Some item" using Cons.prems(1) by simp
    then have "verify_stock xs rows = Some ProductNotFound" using Cons.IH Cons.prems(2) by simp
    then show ?thesis using True by (auto simp: in_stock_def split: sum.splits)
  next
    case False
    then have x: "x = item" using Cons.prems(1) by simp
    then obtain e where "ProductRepo_FindByID (bi_productID x) rows = Inl e"
      using Cons.prems(2) by (auto simp: product_exists_def split: sum.splits)
    then show ?thesis using FindByID_Inl by fastforce
  qed
qed

lemma verify_stock_first_short:
  "find (\<lambda>i. \<not> in_stock rows i) its = Some item \<Longrightarrow>
   ProductRepo_FindByID (bi_productID item) rows = Inr p \<Longrightarrow>
   verify_stock its rows = Some (InsufficientStockFor (p_name p))"
proof (induction its)
  case Nil
  then show ?case by simp
next
  case (Cons x xs)
  show ?case
  proof (cases "in_stock rows x")
    case True
    then have "find (\<lambda>i. \<not> in_stock rows i) xs = Some item" using Cons.prems(1) by simp
    then have "verify_stock xs rows = Some (InsufficientStockFor (p_name p))"
      using Cons.IH Cons.prems(2) by simp
    then show ?thesis using True by (auto simp: in_stock_def split: sum.splits)
  next
    case False
    then have x: "x = item" using Cons.prems(1) by simp
    then have "sint (qvalue (p_stock p)) < sint (qvalue (bi_quantity x))"
      using False Cons.prems(2) by (simp add: in_stock_def)
    then show ?thesis using x Cons.prems(2) by simp
  qed
qed

lemma find_after_in_stock_prefix:
  "list_all (in_stock rows) pre \<Longrightarrow> \<not> in_stock rows item \<Longrightarrow>
   find (\<lambda>i. \<not> in_stock rows i) (pre @ item # post) = Some item"
  by (induction pre) simp_all

lemma CreateOrder_precheck_fails:
  assumes "basketID \<noteq> []" "BasketRepo_FindByID basketID (st_baskets s) = Inr b"
    and "verify_stock (b_items b) (st_products s) = Some e"
  shows "CreateOrder uuid now basketID s = (Inl e, s)"
proof -
  have "b_items b \<noteq> []" using assms(3) by auto
  then have "\<not> IsEmpty b" by (simp add: IsEmpty_def)
  then show ?thesis using assms by (simp add: CreateOrder_def)
qed

text \<open>
  Claim C2, amended. For a basket stored under a non-empty ID with some item whose
  product exists with stock strictly less than the requested quantity, \<^verbatim>\<open>CreateOrder\<close>
  fails in the pre-check pass and the whole store (every product's stock, the basket, the
  orders) is unchanged. The error is the one of the first item, in basket order, that is
  not covered by stock: the insufficient-stock error naming its product when that product
  exists, product-not-found when it is missing. So whenever the items before a short item
  are all in stock, the error is the insufficient-stock error for the short item's
  product, whatever follows it.
\<close>

theorem C2_checkout_insufficient_stock:
  "(basketID \<noteq> [] \<and> BasketRepo_FindByID basketID (st_baskets s) = Inr b \<and>
    list_ex (short_of_stock (st_products s)) (b_items b) \<longrightarrow>
      (\<exists>item. find (\<lambda>i. \<not> in_stock (st_products s) i) (b_items b) = Some item \<and>
         (product_exists (st_products s) item \<longrightarrow>
            (\<exists>p. ProductRepo_FindByID (bi_productID item) (st_products s) = Inr p \<and>
                 sint (qvalue (p_stock p)) < sint (qvalue (bi_quantity item)) \<and>
                 CreateOrder uuid now basketID s = (Inl (InsufficientStockFor (p_name p)), s))) \<and>
         (\<not> product_exists (st_products s) item \<longrightarrow>
            CreateOrder uuid now basketID s = (Inl ProductNotFound, s)))) \<and>
   (basketID \<noteq> [] \<and> BasketRepo_FindByID basketID (st_baskets s) = Inr b \<and>
    b_items b = pre @ short # post \<and> list_all (in_stock (st_products s)) pre \<and>
    short_of_stock (st_products s) short \<longrightarrow>
      (\<exists>p. ProductRepo_FindByID (bi_productID short) (st_products s) = Inr p \<and>
           CreateOrder uuid now basketID s = (Inl (InsufficientStockFor (p_name p)), s)))"
proof (intro conjI impI)
  assume h: "basketID \<noteq> [] \<and> BasketRepo_FindByID basketID (st_baskets s) = Inr b \<and>
    list_ex (short_of_stock (st_products s)) (b_items b)"
  then have ne: "basketID \<noteq> []" and f: "BasketRepo_FindByID basketID (st_baskets s) = Inr b"
    and ex: "list_ex (short_of_stock (st_products s)) (b_items b)" by blast+
  from first_offender_exists [OF ex] obtain item where
    fi: "find (\<lambda>i. \<not> in_stock (st_products s) i) (b_items b) = Some item" by blast
  then have off: "\<not> in_stock (st_products s) item" by (auto simp: find_Some_iff)
  have there: "\<exists>p. ProductRepo_FindByID (bi_productID item) (st_products s) = Inr p \<and>
                 sint (qvalue (p_stock p)) < sint (qvalue (bi_quantity item)) \<and>
                 CreateOrder uuid now basketID s = (Inl (InsufficientStockFor (p_name p)), s)"
    if "product_exists (st_products s) item"
  proof -
    from that obtain p where p: "ProductRepo_FindByID (bi_productID item) (st_products s) = Inr p"
      by (auto simp: product_exists_def split: sum.splits)
    then have lt: "sint (qvalue (p_stock p)) < sint (qvalue (bi_quantity item))"
      using off by (simp add: in_stock_def)
    have "CreateOrder uuid now basketID s = (Inl (InsufficientStockFor (p_name p)), s)"
      using CreateOrder_precheck_fails [OF ne f verify_stock_first_short [OF fi p]] .
    then show ?thesis using p lt by blast
  qed
  have missing: "CreateOrder uuid now basketID s = (Inl ProductNotFound, s)"
    if "\<not> product_exists (st_products s) item"
    using CreateOrder_precheck_fails [OF ne f verify_stock_first_missing [OF fi that]] .
  show "\<exists>item. find (\<lambda>i. \<not> in_stock (st_products s) i) (b_items b) = Some item \<and>
         (product_exists (st_products s) item \<longrightarrow>
            (\<exists>p. ProductRepo_FindByID (bi_productID item) (st_products s) = Inr p \<and>
                 sint (qvalue (p_stock p)) < sint (qvalue (bi_quantity item)) \<and>
                 CreateOrder uuid now basketID s = (Inl (InsufficientStockFor (p_name p)), s))) \<and>
         (\<not> product_exists (st_products s) item \<longrightarrow>
            CreateOrder uuid now basketID s = (Inl ProductNotFound, s))"
    using fi there missing by blast
next
  assume h: "basketID \<noteq> [] \<and> BasketRepo_FindByID basketID (st_baskets s) = Inr b \<and>
    b_items b = pre @ short # post \<and> list_all (in_stock (st_products s)) pre \<and>
    short_of_stock (st_products s) short"
  then have ne: "basketID \<noteq> []" and f: "BasketRepo_FindByID basketID (st_baskets s) = Inr b"
    and its: "b_items b = pre @ short # post" and pre: "list_all (in_stock (st_products s)) pre"
    and sh: "short_of_stock (st_products s) short" by blast+
  from sh obtain p where p: "ProductRepo_FindByID (bi_productID short) (st_products s) = Inr p"
    by (auto simp: short_of_stock_def split: sum.splits)
  have fi: "find (\<lambda>i. \<not> in_stock (st_products s) i) (b_items b) = Some short"
    unfolding its using pre short_not_in_stock [OF sh] by (rule find_after_in_stock_prefix)
  have "CreateOrder uuid now basketID s = (Inl (InsufficientStockFor (p_name p)), s)"
    using CreateOrder_precheck_fails [OF ne f verify_stock_first_short [OF fi p]] .
  then show "\<exists>p. ProductRepo_FindByID (bi_productID short) (st_products s) = Inr p \<and>
           CreateOrder uuid now basketID s = (Inl (InsufficientStockFor (p_name p)), s)"
    using p by blast
qed

text \<open>
  C2 at the basket P (in stock), Q (2 of a stock of 1), ghost (no product), and at the
  basket ghost, Q.
\<close>

theorem C2_checkout_insufficient_stock_witness:
  "BasketRepo_FindByID ''B''
       (st_baskets (store_with [usd_item ''P'' 1000 2, usd_item ''Q'' 1500 2, usd_item ''ghost'' 100 1])) =
     Inr (basket_of [usd_item ''P'' 1000 2, usd_item ''Q'' 1500 2, usd_item ''ghost'' 100 1]) \<and>
   list_all (in_stock [product_P, product_Q]) [usd_item ''P'' 1000 2] \<and>
   short_of_stock [product_P, product_Q] (usd_item ''Q'' 1500 2) \<and>
   ProductRepo_FindByID ''Q'' [product_P, product_Q] = Inr product_Q \<and>
   CreateOrder ''O'' 9 ''B''
       (store_with [usd_item ''P'' 1000 2, usd_item ''Q'' 1500 2, usd_item ''ghost'' 100 1]) =
     (Inl (InsufficientStockFor ''ink''),
      store_with [usd_item ''P'' 1000 2, usd_item ''Q'' 1500 2, usd_item ''ghost'' 100 1]) \<and>
   list_ex (short_of_stock [product_P, product_Q]) [usd_item ''ghost'' 100 1, usd_item ''Q'' 1500 2] \<and>
   find (\<lambda>i. \<not> in_stock [product_P, product_Q] i) [usd_item ''ghost'' 100 1, usd_item ''Q'' 1500 2] =
     Some (usd_item ''ghost'' 100 1) \<and>
   \<not> product_exists [product_P, product_Q] (usd_item ''ghost'' 100 1) \<and>
   CreateOrder ''O'' 9 ''B'' (store_with [usd_item ''ghost'' 100 1, usd_item ''Q'' 1500 2]) =
     (Inl ProductNotFound, store_with [usd_item ''ghost'' 100 1, usd_item ''Q'' 1500 2])"
proof -
  let ?its1 = "[usd_item ''P'' 1000 2, usd_item ''Q'' 1500 2, usd_item ''ghost'' 100 1]"
  let ?its2 = "[usd_item ''ghost'' 100 1, usd_item ''Q'' 1500 2]"
  have rows: "st_products (store_with ?its1) = [product_P, product_Q]"
    "st_products (store_with ?its2) = [product_P, product_Q]"
    by (simp_all add: store_with_def)
  have b1: "BasketRepo_FindByID ''B'' (st_baskets (store_with ?its1)) = Inr (basket_of ?its1)"
    and b2: "BasketRepo_FindByID ''B'' (st_baskets (store_with ?its2)) = Inr (basket_of ?its2)"
    by (simp_all add: store_with_def basket_of_def ReconstructBasket_def BasketRepo_FindByID_def)
  have i1: "b_items (basket_of ?its1) = [usd_item ''P'' 1000 2] @ usd_item ''Q'' 1500 2 # [usd_item ''ghost'' 100 1]"
    and i2: "b_items (basket_of ?its2) = ?its2"
    by (simp_all add: basket_of_def ReconstructBasket_def)
  have q: "ProductRepo_FindByID ''Q'' [product_P, product_Q] = Inr product_Q"
    by (simp add: ProductRepo_FindByID_def product_P_def product_Q_def)
  have pre: "list_all (in_stock [product_P, product_Q]) [usd_item ''P'' 1000 2]"
    by (simp add: in_stock_def ProductRepo_FindByID_def product_P_def usd_item_def)
  have sh: "short_of_stock [product_P, product_Q] (usd_item ''Q'' 1500 2)"
    by (simp add: short_of_stock_def ProductRepo_FindByID_def product_P_def product_Q_def usd_item_def)
  have ghost: "\<not> product_exists [product_P, product_Q] (usd_item ''ghost'' 100 1)"
    by (simp add: product_exists_def ProductRepo_FindByID_def product_P_def product_Q_def usd_item_def)
  have ex: "list_ex (short_of_stock [product_P, product_Q]) ?its2" using sh by simp
  have fi: "find (\<lambda>i. \<not> in_stock [product_P, product_Q] i) ?its2 = Some (usd_item ''ghost'' 100 1)"
    by (simp add: in_stock_def ProductRepo_FindByID_def product_P_def product_Q_def usd_item_def)
  have name: "p_name product_Q = ''ink''" by (simp add: product_Q_def)
  have pidq: "bi_productID (usd_item ''Q'' 1500 2) = ''Q''" by (simp add: usd_item_def)
  have hyp1: "''B'' \<noteq> [] \<and>
      BasketRepo_FindByID ''B'' (st_baskets (store_with ?its1)) = Inr (basket_of ?its1) \<and>
      b_items (basket_of ?its1) =
        [usd_item ''P'' 1000 2] @ usd_item ''Q'' 1500 2 # [usd_item ''ghost'' 100 1] \<and>
      list_all (in_stock (st_products (store_with ?its1))) [usd_item ''P'' 1000 2] \<and>
      short_of_stock (st_products (store_with ?its1)) (usd_item ''Q'' 1500 2)"
    unfolding rows using b1 i1 pre sh by (intro conjI) simp_all
  from C2_checkout_insufficient_stock [where basketID = "''B''" and s = "store_with ?its1"
        and b = "basket_of ?its1" and pre = "[usd_item ''P'' 1000 2]"
        and short = "usd_item ''Q'' 1500 2" and post = "[usd_item ''ghost'' 100 1]"
        and uuid = "''O''" and now = 9, THEN conjunct2, THEN mp, OF hyp1]
  obtain p where
    p: "ProductRepo_FindByID (bi_productID (usd_item ''Q'' 1500 2)) (st_products (store_with ?its1)) = Inr p"
    and run1: "CreateOrder ''O'' 9 ''B'' (store_with ?its1) =
      (Inl (InsufficientStockFor (p_name p)), store_with ?its1)"
    by blast
  have "p = product_Q" using p q unfolding rows pidq by simp
  then have one: "CreateOrder ''O'' 9 ''B'' (store_with ?its1) =
     (Inl (InsufficientStockFor ''ink''), store_with ?its1)"
    using run1 name by simp
  have hyp2: "''B'' \<noteq> [] \<and>
      BasketRepo_FindByID ''B'' (st_baskets (store_with ?its2)) = Inr (basket_of ?its2) \<and>
      list_ex (short_of_stock (st_products (store_with ?its2))) (b_items (basket_of ?its2))"
    unfolding rows i2 using b2 ex by (intro conjI) simp_all
  from C2_checkout_insufficient_stock [where basketID = "''B''" and s = "store_with ?its2"
        and b = "basket_of ?its2" and uuid = "''O''" and now = 9, THEN conjunct1, THEN mp, OF hyp2]
  obtain item where
    first: "find (\<lambda>i. \<not> in_stock (st_products (store_with ?its2)) i) (b_items (basket_of ?its2)) =
      Some item"
    and miss: "\<not> product_exists (st_products (store_with ?its2)) item \<longrightarrow>
      CreateOrder ''O'' 9 ''B'' (store_with ?its2) = (Inl ProductNotFound, store_with ?its2)"
    by blast
  have "item = usd_item ''ghost'' 100 1" using first fi unfolding rows i2 by simp
  then have two: "CreateOrder ''O'' 9 ''B'' (store_with ?its2) =
      (Inl ProductNotFound, store_with ?its2)"
    using miss ghost unfolding rows by simp
  show ?thesis using b1 pre sh q one ex fi ghost two by blast
qed

text \<open>
  Claim C2 as stated fails on the error: when an item that references no product comes
  before the item that is short of stock, \<^verbatim>\<open>CreateOrder\<close> fails with product-not-found.
\<close>

theorem C2_missing_product_counterexample:
  "BasketRepo_FindByID ''B'' (st_baskets (store_with [usd_item ''ghost'' 100 1, usd_item ''Q'' 1500 2])) =
     Inr (basket_of [usd_item ''ghost'' 100 1, usd_item ''Q'' 1500 2]) \<and>
   short_of_stock (st_products (store_with [usd_item ''ghost'' 100 1, usd_item ''Q'' 1500 2]))
     (usd_item ''Q'' 1500 2) \<and>
   CreateOrder ''O'' 9 ''B'' (store_with [usd_item ''ghost'' 100 1, usd_item ''Q'' 1500 2]) =
     (Inl ProductNotFound, store_with [usd_item ''ghost'' 100 1, usd_item ''Q'' 1500 2])"
  by (simp add: store_with_def basket_of_def ReconstructBasket_def usd_item_def
      product_P_def product_Q_def BasketRepo_FindByID_def ProductRepo_FindByID_def
      short_of_stock_def CreateOrder_def IsEmpty_def)


section \<open>Checkout: the whole operation\<close>

lemma convert_items_good:
  "list_all good_item its \<Longrightarrow> convert_items its = Inr (map OrderItem_of its)"
  by (induction its)
    (auto simp: good_item_def positive_quantity_def NewOrderItem_def IsZero_def OrderItem_of_def)

lemma OrderItem_Subtotal_of: "OrderItem_Subtotal (OrderItem_of bi) = BasketItem_Subtotal bi"
  by (simp add: OrderItem_Subtotal_def BasketItem_Subtotal_def OrderItem_of_def)

lemma NewOrder_total_eq:
  "NewOrder_total acc (map OrderItem_of its) = Total_loop acc its"
  by (induction its arbitrary: acc) (auto simp: OrderItem_Subtotal_of split: sum.splits)

lemma item_responses_ok:
  "list_all priced_item its \<Longrightarrow> exact_total its < 2 ^ 63 \<Longrightarrow>
   \<exists>rs. item_responses (map OrderItem_of its) = Inr rs"
proof (induction its)
  case Nil
  then show ?case by simp
next
  case (Cons item its)
  let ?p = "sint (amount (bi_price item)) * sint (qvalue (bi_quantity item))"
  have pi: "priced_item item" and rest: "list_all priced_item its" using Cons.prems by simp_all
  have p0: "0 \<le> ?p" using pi by (simp add: priced_item_def valid_money_def valid_quantity_def)
  have r0: "0 \<le> exact_total its" using rest by (rule exact_total_nonneg)
  have bound: "?p + exact_total its < 2 ^ 63" using Cons.prems(2) by (simp add: exact_total_Cons)
  have "?p < 2 ^ 63" using bound r0 by linarith
  then have sub: "OrderItem_Subtotal (OrderItem_of item) =
      Inr \<lparr>amount = amount (bi_price item) * qvalue (bi_quantity item),
           currency = currency (bi_price item)\<rparr>"
    using BasketItem_Subtotal_fits(1) [OF pi] by (simp add: OrderItem_Subtotal_of)
  have "exact_total its < 2 ^ 63" using bound p0 by linarith
  then obtain rs where "item_responses (map OrderItem_of its) = Inr rs"
    using Cons.IH rest by blast
  then show ?case using sub by simp
qed

lemma BasketRepo_FindByID_id:
  "BasketRepo_FindByID ident rows = Inr b \<Longrightarrow> b_id b = ident"
  by (auto simp: BasketRepo_FindByID_def find_Some_iff split: option.splits)

lemma BasketRepo_Update_found:
  "BasketRepo_FindByID (b_id b) rows = Inr x \<Longrightarrow>
   BasketRepo_Update b rows = Inr (map (\<lambda>r. if b_id r = b_id b then b else r) rows)"
  by (auto simp: BasketRepo_Update_def BasketRepo_FindByID_def split: option.splits)

lemma BasketRepo_FindByID_Update_same:
  "BasketRepo_Update b rows = Inr rows' \<Longrightarrow> BasketRepo_FindByID (b_id b) rows' = Inr b"
proof -
  have "find (\<lambda>r. b_id r = b_id b) (map (\<lambda>r. if b_id r = b_id b then b else r) rows) = Some b"
    if "find (\<lambda>r. b_id r = b_id b) rows = Some x" for x
    using that by (induction rows) (auto split: if_splits)
  then show "BasketRepo_Update b rows = Inr rows' \<Longrightarrow> BasketRepo_FindByID (b_id b) rows' = Inr b"
    by (auto simp: BasketRepo_Update_def BasketRepo_FindByID_def split: option.splits)
qed

lemma NewOrder_ok:
  assumes its: "its = first # rest" and good: "list_all good_item its"
    and pr: "list_all priced_item its"
    and same: "list_all (\<lambda>i. currency (bi_price i) = currency (bi_price first)) its"
    and fit: "exact_total its < 2 ^ 63"
  shows "NewOrder uuid now its =
     Inr \<lparr>o_id = uuid, o_items = map OrderItem_of its,
          o_total = \<lparr>amount = word_of_int (exact_total its), currency = currency (bi_price first)\<rparr>,
          o_status = OrderStatusPending, o_createdAt = now, o_updatedAt = now\<rparr>"
proof -
  let ?zero = "\<lparr>amount = 0, currency = currency (bi_price first)\<rparr>"
  have c: "currency (bi_price first) \<noteq> []"
    using its pr by (simp add: priced_item_def valid_money_def)
  then have z: "NewMoney 0 (currency (bi_price first)) = Inr ?zero" by (simp add: NewMoney_def)
  have vz: "valid_money ?zero" using c by (simp add: valid_money_def)
  have "Total_loop ?zero its =
      (if list_all (\<lambda>i. currency (bi_price i) = currency ?zero) its
       then Inr \<lparr>amount = amount ?zero + word_of_int (exact_total its), currency = currency ?zero\<rparr>
       else Inl CurrencyMismatch)"
    using Total_loop_exact [OF pr vz] fit by simp
  then have t: "NewOrder_total ?zero (map OrderItem_of its) =
      Inr \<lparr>amount = word_of_int (exact_total its), currency = currency (bi_price first)\<rparr>"
    using same by (simp add: NewOrder_total_eq)
  have cv: "convert_items its = Inr (map OrderItem_of its)" using good by (rule convert_items_good)
  show ?thesis
    unfolding NewOrder_def using its cv z t by (simp del: convert_items.simps)
qed


lemma good_items_nonneg: "list_all good_item its \<Longrightarrow> list_all nonneg_quantity its"
  by (induction its)
    (simp_all add: good_item_def positive_quantity_def nonneg_quantity_def valid_quantity_def)

lemma CreateOrder_ok:
  assumes ne: "basketID \<noteq> []"
    and f: "BasketRepo_FindByID basketID (st_baskets s) = Inr b"
    and its: "b_items b = first # rest"
    and inv: "basket_inv b"
    and pr: "list_all priced_item (b_items b)"
    and same: "list_all (\<lambda>i. currency (bi_price i) = currency (bi_price first)) (b_items b)"
    and fit: "exact_total (b_items b) < 2 ^ 63"
    and stock: "list_all (in_stock (st_products s)) (b_items b)"
  shows "\<exists>rows' bs rs.
    CreateOrder uuid now basketID s =
      (Inr \<lparr>r_id = uuid, r_items = rs, r_total = word_of_int (exact_total (b_items b)),
            r_currency = currency (bi_price first), r_status = OrderStatusPending,
            r_createdAt = now, r_updatedAt = now\<rparr>,
       s\<lparr>st_products := rows', st_baskets := bs,
         st_orders := OrderRepo_Save
           \<lparr>o_id = uuid, o_items = map OrderItem_of (b_items b),
            o_total = \<lparr>amount = word_of_int (exact_total (b_items b)),
                       currency = currency (bi_price first)\<rparr>,
            o_status = OrderStatusPending, o_createdAt = now, o_updatedAt = now\<rparr> (st_orders s)\<rparr>) \<and>
    reduce_stock now (b_items b) (st_products s) = (None, rows') \<and>
    BasketRepo_FindByID basketID bs = Inr (Clear now b)"
proof -
  let ?ord = "\<lparr>o_id = uuid, o_items = map OrderItem_of (b_items b),
            o_total = \<lparr>amount = word_of_int (exact_total (b_items b)),
                       currency = currency (bi_price first)\<rparr>,
            o_status = OrderStatusPending, o_createdAt = now, o_updatedAt = now\<rparr>"
  have nonempty: "\<not> IsEmpty b" using its by (simp add: IsEmpty_def)
  have vs: "verify_stock (b_items b) (st_products s) = None"
    using stock by (simp add: verify_stock_None_iff)
  have d: "distinct (map bi_productID (b_items b))" and good: "list_all good_item (b_items b)"
    using inv by (simp_all add: basket_inv_def)
  have nn: "list_all nonneg_quantity (b_items b)" using good by (rule good_items_nonneg)
  from reduce_stock_result [OF d nn vs, of now] obtain rows' where
    red: "reduce_stock now (b_items b) (st_products s) = (None, rows')" by blast
  have no: "NewOrder uuid now (b_items b) = Inr ?ord"
    using NewOrder_ok [OF its good pr same fit] .
  have bid: "b_id (Clear now b) = basketID" using BasketRepo_FindByID_id [OF f] by (simp add: Clear_def)
  let ?bs = "map (\<lambda>r. if b_id r = b_id (Clear now b) then Clear now b else r) (st_baskets s)"
  have up: "BasketRepo_Update (Clear now b) (st_baskets s) = Inr ?bs"
    using f bid by (intro BasketRepo_Update_found [of _ _ b]) simp
  have found: "BasketRepo_FindByID basketID ?bs = Inr (Clear now b)"
    using BasketRepo_FindByID_Update_same [OF up] bid by simp
  from item_responses_ok [OF pr fit] obtain rs where
    rs: "item_responses (map OrderItem_of (b_items b)) = Inr rs" by blast
  have resp: "toOrderResponse ?ord =
      Inr \<lparr>r_id = uuid, r_items = rs, r_total = word_of_int (exact_total (b_items b)),
            r_currency = currency (bi_price first), r_status = OrderStatusPending,
            r_createdAt = now, r_updatedAt = now\<rparr>"
    using rs by (simp add: toOrderResponse_def)
  have "CreateOrder uuid now basketID s =
      (Inr \<lparr>r_id = uuid, r_items = rs, r_total = word_of_int (exact_total (b_items b)),
            r_currency = currency (bi_price first), r_status = OrderStatusPending,
            r_createdAt = now, r_updatedAt = now\<rparr>,
       s\<lparr>st_products := rows', st_baskets := ?bs,
         st_orders := OrderRepo_Save ?ord (st_orders s)\<rparr>)"
    unfolding CreateOrder_def using ne f nonempty vs red no up resp by simp
  then show ?thesis using red found by blast
qed


text \<open>
  Claim C1, amended. For a basket stored under a non-empty ID that is not empty, keeps
  the basket invariants (pairwise-distinct, non-empty product IDs; positive quantities),
  has items of valid price that all share one currency, has an exact total of at most
  \<open>2^63 - 1\<close>, and whose items all reference existing products with stock at least the
  requested quantity: \<^verbatim>\<open>CreateOrder\<close> succeeds and returns an order with status PENDING
  whose total is the basket's total; each referenced product's stock is decremented by
  exactly the requested quantity and no other product changes; the stored basket is empty
  afterwards.
\<close>

theorem C1_checkout_succeeds:
  "basketID \<noteq> [] \<and> BasketRepo_FindByID basketID (st_baskets s) = Inr b \<and>
   b_items b = first # rest \<and> basket_inv b \<and> list_all priced_item (b_items b) \<and>
   list_all (\<lambda>i. currency (bi_price i) = currency (bi_price first)) (b_items b) \<and>
   exact_total (b_items b) < 2 ^ 63 \<and>
   list_all (in_stock (st_products s)) (b_items b) \<longrightarrow>
     (\<exists>resp. fst (CreateOrder uuid now basketID s) = Inr resp \<and>
        r_status resp = ''PENDING'' \<and>
        Total b = Inr \<lparr>amount = r_total resp, currency = r_currency resp\<rparr> \<and>
        sint (r_total resp) = exact_total (b_items b)) \<and>
     (\<forall>item \<in> set (b_items b). \<exists>p.
        ProductRepo_FindByID (bi_productID item) (st_products s) = Inr p \<and>
        ProductRepo_FindByID (bi_productID item)
            (st_products (snd (CreateOrder uuid now basketID s))) =
          Inr (p\<lparr>p_stock := \<lparr>qvalue = qvalue (p_stock p) - qvalue (bi_quantity item)\<rparr>,
                 p_updatedAt := now\<rparr>) \<and>
        sint (qvalue (p_stock p) - qvalue (bi_quantity item)) =
          sint (qvalue (p_stock p)) - sint (qvalue (bi_quantity item))) \<and>
     (\<forall>ident. ident \<notin> set (map bi_productID (b_items b)) \<longrightarrow>
        ProductRepo_FindByID ident (st_products (snd (CreateOrder uuid now basketID s))) =
          ProductRepo_FindByID ident (st_products s)) \<and>
     BasketRepo_FindByID basketID (st_baskets (snd (CreateOrder uuid now basketID s))) =
       Inr (Clear now b) \<and>
     IsEmpty (Clear now b)"
proof (intro impI)
  assume h: "basketID \<noteq> [] \<and> BasketRepo_FindByID basketID (st_baskets s) = Inr b \<and>
   b_items b = first # rest \<and> basket_inv b \<and> list_all priced_item (b_items b) \<and>
   list_all (\<lambda>i. currency (bi_price i) = currency (bi_price first)) (b_items b) \<and>
   exact_total (b_items b) < 2 ^ 63 \<and>
   list_all (in_stock (st_products s)) (b_items b)"
  then have ne: "basketID \<noteq> []"
    and f: "BasketRepo_FindByID basketID (st_baskets s) = Inr b"
    and its: "b_items b = first # rest"
    and inv: "basket_inv b"
    and pr: "list_all priced_item (b_items b)"
    and same: "list_all (\<lambda>i. currency (bi_price i) = currency (bi_price first)) (b_items b)"
    and fit: "exact_total (b_items b) < 2 ^ 63"
    and stock: "list_all (in_stock (st_products s)) (b_items b)"
    by blast+
  let ?resp = "\<lambda>rs. \<lparr>r_id = uuid, r_items = rs, r_total = word_of_int (exact_total (b_items b)),
            r_currency = currency (bi_price first), r_status = OrderStatusPending,
            r_createdAt = now, r_updatedAt = now\<rparr>"
  from CreateOrder_ok [OF ne f its inv pr same fit stock, of uuid now]
  obtain rows' bs rs where
    res: "fst (CreateOrder uuid now basketID s) = Inr (?resp rs)" and
    prods: "st_products (snd (CreateOrder uuid now basketID s)) = rows'" and
    bask: "st_baskets (snd (CreateOrder uuid now basketID s)) = bs" and
    red: "reduce_stock now (b_items b) (st_products s) = (None, rows')" and
    found: "BasketRepo_FindByID basketID bs = Inr (Clear now b)"
    by force
  have d: "distinct (map bi_productID (b_items b))" and good: "list_all good_item (b_items b)"
    using inv by (simp_all add: basket_inv_def)
  have vs: "verify_stock (b_items b) (st_products s) = None"
    using stock by (simp add: verify_stock_None_iff)
  from reduce_stock_result [OF d good_items_nonneg [OF good] vs, of now] red
  have each: "\<forall>item \<in> set (b_items b). \<exists>p.
        ProductRepo_FindByID (bi_productID item) (st_products s) = Inr p \<and>
        ProductRepo_FindByID (bi_productID item) rows' =
          Inr (p\<lparr>p_stock := \<lparr>qvalue = qvalue (p_stock p) - qvalue (bi_quantity item)\<rparr>,
                 p_updatedAt := now\<rparr>) \<and>
        sint (qvalue (p_stock p) - qvalue (bi_quantity item)) =
          sint (qvalue (p_stock p)) - sint (qvalue (bi_quantity item))"
    and frame: "\<forall>ident. ident \<notin> set (map bi_productID (b_items b)) \<longrightarrow>
        ProductRepo_FindByID ident rows' = ProductRepo_FindByID ident (st_products s)"
    by auto
  have tot: "Total b = Inr \<lparr>amount = word_of_int (exact_total (b_items b)),
                             currency = currency (bi_price first)\<rparr>"
    using Total_exact [OF its pr fit] same by simp
  have "0 \<le> exact_total (b_items b)" using pr by (rule exact_total_nonneg)
  then have st: "sint (word_of_int (exact_total (b_items b)) :: int64) = exact_total (b_items b)"
    using fit by (rule sint64_of_int_fits)
  have one: "\<exists>resp. fst (CreateOrder uuid now basketID s) = Inr resp \<and>
        r_status resp = ''PENDING'' \<and>
        Total b = Inr \<lparr>amount = r_total resp, currency = r_currency resp\<rparr> \<and>
        sint (r_total resp) = exact_total (b_items b)"
    using res tot st by (simp add: OrderStatusPending_def)
  have five: "IsEmpty (Clear now b)" by (simp add: IsEmpty_def Clear_def)
  show "(\<exists>resp. fst (CreateOrder uuid now basketID s) = Inr resp \<and>
        r_status resp = ''PENDING'' \<and>
        Total b = Inr \<lparr>amount = r_total resp, currency = r_currency resp\<rparr> \<and>
        sint (r_total resp) = exact_total (b_items b)) \<and>
     (\<forall>item \<in> set (b_items b). \<exists>p.
        ProductRepo_FindByID (bi_productID item) (st_products s) = Inr p \<and>
        ProductRepo_FindByID (bi_productID item)
            (st_products (snd (CreateOrder uuid now basketID s))) =
          Inr (p\<lparr>p_stock := \<lparr>qvalue = qvalue (p_stock p) - qvalue (bi_quantity item)\<rparr>,
                 p_updatedAt := now\<rparr>) \<and>
        sint (qvalue (p_stock p) - qvalue (bi_quantity item)) =
          sint (qvalue (p_stock p)) - sint (qvalue (bi_quantity item))) \<and>
     (\<forall>ident. ident \<notin> set (map bi_productID (b_items b)) \<longrightarrow>
        ProductRepo_FindByID ident (st_products (snd (CreateOrder uuid now basketID s))) =
          ProductRepo_FindByID ident (st_products s)) \<and>
     BasketRepo_FindByID basketID (st_baskets (snd (CreateOrder uuid now basketID s))) =
       Inr (Clear now b) \<and>
     IsEmpty (Clear now b)"
    unfolding prods bask using one each frame found five by (intro conjI)
qed

theorem C1_checkout_succeeds_witness:
  "BasketRepo_FindByID ''B'' (st_baskets (store_with [usd_item ''P'' 1000 2])) =
     Inr (basket_of [usd_item ''P'' 1000 2]) \<and>
   basket_inv (basket_of [usd_item ''P'' 1000 2]) \<and>
   list_all priced_item [usd_item ''P'' 1000 2] \<and>
   exact_total [usd_item ''P'' 1000 2] = 2000 \<and>
   list_all (in_stock (st_products (store_with [usd_item ''P'' 1000 2]))) [usd_item ''P'' 1000 2] \<and>
   (\<exists>resp. fst (CreateOrder ''O'' 9 ''B'' (store_with [usd_item ''P'' 1000 2])) = Inr resp \<and>
      r_status resp = ''PENDING'' \<and> sint (r_total resp) = 2000) \<and>
   ProductRepo_FindByID ''P'' (st_products (store_with [usd_item ''P'' 1000 2])) = Inr product_P \<and>
   ProductRepo_FindByID ''P''
       (st_products (snd (CreateOrder ''O'' 9 ''B'' (store_with [usd_item ''P'' 1000 2])))) =
     Inr (product_P\<lparr>p_stock := \<lparr>qvalue = 3\<rparr>, p_updatedAt := 9\<rparr>) \<and>
   BasketRepo_FindByID ''B''
       (st_baskets (snd (CreateOrder ''O'' 9 ''B'' (store_with [usd_item ''P'' 1000 2])))) =
     Inr (Clear 9 (basket_of [usd_item ''P'' 1000 2])) \<and>
   IsEmpty (Clear 9 (basket_of [usd_item ''P'' 1000 2]))"
proof -
  have hyp: "''B'' \<noteq> [] \<and>
     BasketRepo_FindByID ''B'' (st_baskets (store_with [usd_item ''P'' 1000 2])) =
       Inr (basket_of [usd_item ''P'' 1000 2]) \<and>
     b_items (basket_of [usd_item ''P'' 1000 2]) = usd_item ''P'' 1000 2 # [] \<and>
     basket_inv (basket_of [usd_item ''P'' 1000 2]) \<and>
     list_all priced_item (b_items (basket_of [usd_item ''P'' 1000 2])) \<and>
     list_all (\<lambda>i. currency (bi_price i) = currency (bi_price (usd_item ''P'' 1000 2)))
       (b_items (basket_of [usd_item ''P'' 1000 2])) \<and>
     exact_total (b_items (basket_of [usd_item ''P'' 1000 2])) < 2 ^ 63 \<and>
     list_all (in_stock (st_products (store_with [usd_item ''P'' 1000 2])))
       (b_items (basket_of [usd_item ''P'' 1000 2]))"
    by (simp add: store_with_def basket_of_def ReconstructBasket_def usd_item_def
        product_P_def product_Q_def BasketRepo_FindByID_def ProductRepo_FindByID_def
        basket_inv_def good_item_def positive_quantity_def priced_item_def valid_money_def
        valid_quantity_def exact_total_def in_stock_def)
  have et: "exact_total [usd_item ''P'' 1000 2] = 2000"
    by (simp add: exact_total_def usd_item_def)
  have items: "b_items (basket_of [usd_item ''P'' 1000 2]) = [usd_item ''P'' 1000 2]"
    by (simp add: basket_of_def ReconstructBasket_def)
  have p: "ProductRepo_FindByID ''P'' (st_products (store_with [usd_item ''P'' 1000 2])) =
      Inr product_P"
    by (simp add: store_with_def ProductRepo_FindByID_def product_P_def)
  have three: "qvalue (p_stock product_P) - qvalue (bi_quantity (usd_item ''P'' 1000 2)) = 3"
    by (simp add: product_P_def usd_item_def)
  note c1 = C1_checkout_succeeds [THEN mp, OF hyp, of "''O''" 9]
  show ?thesis
    using hyp c1 et p three by (auto simp: items usd_item_def)
qed

text \<open>
  Claim C1 as stated fails for baskets whose items are all in stock: the empty basket is
  refused; items of two currencies, two items of one product (3 and 3 of a stock of 5)
  and a total beyond \<^verbatim>\<open>int64\<close> all make \<^verbatim>\<open>CreateOrder\<close> fail.
\<close>

theorem C1_checkout_counterexample:
  "list_all (in_stock (st_products (store_with []))) [] \<and>
   fst (CreateOrder ''O'' 9 ''B'' (store_with [])) = Inl EmptyBasket \<and>
   list_all (in_stock (st_products (store_with [usd_item ''P'' 1000 2, eur_item ''Q'' 1500 1])))
     [usd_item ''P'' 1000 2, eur_item ''Q'' 1500 1] \<and>
   fst (CreateOrder ''O'' 9 ''B'' (store_with [usd_item ''P'' 1000 2, eur_item ''Q'' 1500 1])) =
     Inl CurrencyMismatch \<and>
   list_all (in_stock (st_products (store_with [usd_item ''P'' 1000 3, usd_item ''P'' 1000 3])))
     [usd_item ''P'' 1000 3, usd_item ''P'' 1000 3] \<and>
   fst (CreateOrder ''O'' 9 ''B'' (store_with [usd_item ''P'' 1000 3, usd_item ''P'' 1000 3])) =
     Inl InsufficientStock \<and>
   list_all (in_stock (st_products (store_with [usd_item ''P'' 4611686018427387904 2])))
     [usd_item ''P'' 4611686018427387904 2] \<and>
   fst (CreateOrder ''O'' 9 ''B'' (store_with [usd_item ''P'' 4611686018427387904 2])) =
     Inl AmountNegative"
  by (simp add: store_with_def basket_of_def ReconstructBasket_def usd_item_def eur_item_def
      product_P_def product_Q_def BasketRepo_FindByID_def ProductRepo_FindByID_def
      ProductRepo_Update_def in_stock_def CreateOrder_def IsEmpty_def ReduceStock_def
      Quantity_Subtract_def NewQuantity_def NewOrder_def NewOrderItem_def IsZero_def
      NewMoney_def OrderItem_Subtotal_def Money_Multiply_def Money_Add_def)

end
